theory Spec2Isabelle
  imports Main "HOL-Library.AList"
begin

section \<open>JavaScript string operations used by app.js\<close>

text \<open>
  Strings are lists of characters. \<open>split_on c s\<close> is \<open>s.split(c)\<close> for a one-character
  separator: it always returns at least one piece, and \<open>n\<close> separators give \<open>n + 1\<close> pieces.
  \<open>split_where\<close> cuts at every character of a class.
\<close>

fun split_where :: "(char \<Rightarrow> bool) \<Rightarrow> string \<Rightarrow> string list" where
  "split_where P [] = [[]]"
| "split_where P (x # xs) =
     (if P x then [] # split_where P xs
      else (case split_where P xs of w # ws \<Rightarrow> (x # w) # ws | [] \<Rightarrow> [[x]]))"

definition split_on :: "char \<Rightarrow> string \<Rightarrow> string list" where
  "split_on c s = split_where (\<lambda>x. x = c) s"

definition lower_char :: "char \<Rightarrow> char" where
  "lower_char c =
     (case map_of (zip ''ABCDEFGHIJKLMNOPQRSTUVWXYZ'' ''abcdefghijklmnopqrstuvwxyz'') c of
        Some l \<Rightarrow> l
      | None \<Rightarrow> c)"

definition toLowerCase :: "string \<Rightarrow> string" where
  \<comment> \<open>\<open>s.toLowerCase()\<close> on ASCII letters; other characters are kept.\<close>
  "toLowerCase s = map lower_char s"

definition is_space :: "char \<Rightarrow> bool" where
  \<comment> \<open>the white space that \<open>trim()\<close> removes, among the 8-bit characters\<close>
  "is_space c = (c \<in> set [CHR 0x09, CHR 0x0A, CHR 0x0B, CHR 0x0C, CHR 0x0D, CHR 0x20, CHR 0xA0])"

definition trim :: "string \<Rightarrow> string" where
  "trim s = rev (dropWhile is_space (rev (dropWhile is_space s)))"

definition starts_with :: "string \<Rightarrow> string \<Rightarrow> bool" where
  "starts_with p s = (take (length p) s = p)"

section \<open>The browser platform\<close>

text \<open>
  app.js runs against globals of the browser: the \<open>URL\<close> constructor, \<open>fetch\<close>,
  \<open>encodeURIComponent\<close>, \<open>DOMParser\<close> and the serialisation \<open>outerHTML\<close>. They are not
  code of the repository, so the model takes them as one record of functions. Of a parsed
  URL the code reads the fields \<open>href\<close>, \<open>hostname\<close> and \<open>pathname\<close>. A function that
  throws returns \<open>None\<close>. \<open>fetch\<close> answers a request with \<open>None\<close> (the promise is rejected)
  or with a response, the same each time the request is repeated; reading the body of a
  response succeeds, as text or as a blob of the same bytes.
\<close>

record url =
  href :: string
  hostname :: string
  pathname :: string

record response =
  ok :: bool
  body :: string

record element =
  tag :: string
  attrs :: "(string \<times> string) list"
  textContent :: string

text \<open>
  A parsed document is the list of its elements in document order: the first \<open>head_n\<close>
  are the descendants of \<open>head\<close>, the others those of \<open>body\<close>. \<open>baseURI\<close> is the URL
  against which the DOM resolves the reflected \<open>href\<close> and \<open>src\<close> properties.
\<close>

record document =
  els :: "element list"
  head_n :: nat
  baseURI :: string

record platform =
  newURL :: "string \<Rightarrow> string option \<Rightarrow> url option"
  encodeURIComponent :: "string \<Rightarrow> string option"
  fetch :: "string \<Rightarrow> response option"
  parseFromString :: "string \<Rightarrow> document"
  outerHTML :: "document \<Rightarrow> string"

section \<open>URL helpers (app.js, lines 62-105)\<close>

definition resolveUrl :: "platform \<Rightarrow> string \<Rightarrow> string \<Rightarrow> string" where
  "resolveUrl pf base relative =
     (case newURL pf relative (Some base) of Some u \<Rightarrow> href u | None \<Rightarrow> relative)"

text \<open>
  One attempt of the pattern \<open>url\((?:'|")?([^'")]+)(?:'|")?\)\<close> at the start of a string:
  the captured group and the text after the match. The greedy choice is the only one that
  can succeed: leaving out an opening quote that is there makes the group start with a
  quote, a shorter group is followed by a character of the group's own class, and leaving
  out a closing quote that is there puts a quote where \<open>)\<close> is required.
\<close>

definition quote_char :: "char \<Rightarrow> bool" where
  "quote_char c = (c = CHR 0x27 \<or> c = CHR 0x22)"

definition url_char :: "char \<Rightarrow> bool" where
  "url_char c = (\<not> quote_char c \<and> c \<noteq> CHR '')'')"

definition skip_quote :: "string \<Rightarrow> string" where
  "skip_quote s = (case s of c # cs \<Rightarrow> if quote_char c then cs else s | [] \<Rightarrow> s)"

definition match_url :: "string \<Rightarrow> (string \<times> string) option" where
  "match_url s =
     (if starts_with ''url('' s then
        (let r = skip_quote (drop 4 s);
             g = takeWhile url_char r;
             r' = skip_quote (dropWhile url_char r)
         in if g \<noteq> [] \<and> starts_with '')'' r' then Some (g, tl r') else None)
      else None)"

function extractUrlsFromCss :: "string \<Rightarrow> string list" where
  "extractUrlsFromCss [] = []"
| "extractUrlsFromCss (c # cs) =
     (case match_url (c # cs) of
        Some (g, r) \<Rightarrow> g # extractUrlsFromCss r
      | None \<Rightarrow> extractUrlsFromCss cs)"
  by pat_completeness auto
termination
proof (relation "measure length", goal_cases)
  case 1
  show ?case by simp
next
  case (2 c cs)
  show ?case by simp
next
  case (3 c cs x g r)
  let ?s = "c # cs"
  let ?r1 = "skip_quote (drop 4 ?s)"
  let ?r2 = "skip_quote (dropWhile url_char ?r1)"
  have sq: "\<And>t. length (skip_quote t) \<le> length t"
    by (simp add: skip_quote_def split: list.splits)
  from 3 have "match_url ?s = Some (g, r)" by simp
  then have r: "r = tl ?r2" and ne: "?r2 \<noteq> []"
    by (auto simp: match_url_def Let_def starts_with_def split: if_splits)
  have "length ?r2 \<le> length (dropWhile url_char ?r1)" by (rule sq)
  also have "\<dots> \<le> length ?r1" by (rule length_dropWhile_le)
  also have "\<dots> \<le> length (drop 4 ?s)" by (rule sq)
  finally have "length ?r2 \<le> length ?s" by simp
  with ne r show ?case by (cases ?r2) auto
qed

definition or_default :: "string \<Rightarrow> string \<Rightarrow> string" where
  \<comment> \<open>\<open>s || d\<close> on strings: the empty string is falsy\<close>
  "or_default s d = (if s = [] then d else s)"

definition fileNameFromUrl :: "platform \<Rightarrow> string \<Rightarrow> string" where
  "fileNameFromUrl pf u =
     (case newURL pf u None of
        None \<Rightarrow> ''asset''
      | Some p \<Rightarrow>
          (let segs = filter (\<lambda>s. s \<noteq> []) (split_on CHR ''/'' (pathname p));
               name0 = (if segs = [] then ''index'' else last segs);
               name1 = hd (split_on CHR ''?'' name0);
               name2 =
                 (if CHR ''.'' \<notin> set name1 then
                    (let ext = toLowerCase (last (split_on CHR ''.'' (pathname p)))
                     in if ext \<noteq> [] \<and> length ext \<le> 5 then name1 @ ''.'' @ ext else name1)
                  else name1)
           in or_default name2 ''asset''))"

definition strip_scheme :: "string \<Rightarrow> string" where
  \<comment> \<open>\<open>s.replace(/^https?:\/\//, '')\<close>\<close>
  "strip_scheme s =
     (if starts_with ''http://'' s then drop 7 s
      else if starts_with ''https://'' s then drop 8 s else s)"

definition domainFromUrl :: "platform \<Rightarrow> string \<Rightarrow> string" where
  "domainFromUrl pf fullUrl =
     (case newURL pf fullUrl None of
        Some u \<Rightarrow> hostname u
      | None \<Rightarrow> hd (split_on CHR ''/'' (strip_scheme fullUrl)))"

definition unsafe_char :: "char \<Rightarrow> bool" where
  \<comment> \<open>the class \<open>[:\/\\?%*\|"<> ]\<close>\<close>
  "unsafe_char c = (c \<in> set '':/?%*|<> '' \<or> c = CHR 0x5C \<or> c = CHR 0x22)"

function safeName :: "string \<Rightarrow> string" where
  \<comment> \<open>\<open>s.replace(/[:\/\\?%*\|"<> ]+/g, '-')\<close>\<close>
  "safeName [] = []"
| "safeName (c # cs) =
     (if unsafe_char c then CHR ''-'' # safeName (dropWhile unsafe_char cs)
      else c # safeName cs)"
  by pat_completeness auto
termination
  by (relation "measure length") (auto simp: less_Suc_eq_le length_dropWhile_le)

definition zipNameOf :: "platform \<Rightarrow> string \<Rightarrow> string" where
  \<comment> \<open>lines 433-435 of processSite\<close>
  "zipNameOf pf u = safeName (or_default (domainFromUrl pf u) ''site'') @ ''.zip''"


section \<open>A model of the URL constructor\<close>

text \<open>
  The theorems below hold for every platform. The examples need one platform to run on;
  \<open>std_URL\<close> follows the URL Standard on the inputs described here and answers \<open>None\<close>
  (the constructor throws) on every other input, so it is only to be used on these:
  an absolute URL is \<open>http\<close> or \<open>https\<close>, \<open>://\<close>, a host of letters, digits, dots and
  hyphens whose last label starts with a letter and none of whose labels is punycode, an
  optional decimal port, and a path, query and fragment of printable ASCII characters
  that the standard copies unchanged; a relative reference is resolved against such a
  base when it is empty, starts with \<open>/\<close>, \<open>//\<close>, \<open>?\<close> or \<open>#\<close>, or is a relative path
  that does not start with a scheme.
\<close>

record url_parts =
  scheme :: string
  host :: string
  port :: string
  path :: "string list"
  query :: "string option"
  fragment :: "string option"

definition is_alpha :: "char \<Rightarrow> bool" where
  "is_alpha c = (let n = (of_char c :: nat) in (65 \<le> n \<and> n \<le> 90) \<or> (97 \<le> n \<and> n \<le> 122))"

definition is_digit :: "char \<Rightarrow> bool" where
  "is_digit c = (let n = (of_char c :: nat) in 48 \<le> n \<and> n \<le> 57)"

definition scheme_char :: "char \<Rightarrow> bool" where
  "scheme_char c = (is_alpha c \<or> is_digit c \<or> c \<in> set ''+-.'')"

definition host_char :: "char \<Rightarrow> bool" where
  "host_char c = (is_alpha c \<or> is_digit c \<or> c \<in> set ''.-'')"

definition plain_char :: "char \<Rightarrow> bool" where
  "plain_char c =
     (let n = (of_char c :: nat)
      in 33 \<le> n \<and> n \<le> 126 \<and> c \<notin> set ''<>`{}%^|'' \<and> c \<noteq> CHR 0x22 \<and> c \<noteq> CHR 0x27
         \<and> c \<noteq> CHR 0x5C)"

definition has_scheme :: "string \<Rightarrow> bool" where
  "has_scheme s =
     (case s of [] \<Rightarrow> False
      | c # _ \<Rightarrow> is_alpha c \<and> starts_with '':'' (dropWhile scheme_char s))"

definition cut :: "char \<Rightarrow> string \<Rightarrow> string \<times> string option" where
  \<comment> \<open>the text before the first \<open>c\<close>, and the text after it when there is one\<close>
  "cut c s =
     (let r = dropWhile (\<lambda>x. x \<noteq> c) s
      in (takeWhile (\<lambda>x. x \<noteq> c) s, if r = [] then None else Some (tl r)))"

fun norm_segs :: "string list \<Rightarrow> string list \<Rightarrow> string list" where
  \<comment> \<open>the path state of the URL parser: dot segments are removed as they are read\<close>
  "norm_segs acc [] = acc"
| "norm_segs acc [s] =
     (if s = ''..'' then butlast acc @ [[]] else if s = ''.'' then acc @ [[]] else acc @ [s])"
| "norm_segs acc (s # ss) =
     (if s = ''..'' then norm_segs (butlast acc) ss
      else if s = ''.'' then norm_segs acc ss else norm_segs (acc @ [s]) ss)"

definition digits_val :: "string \<Rightarrow> nat" where
  "digits_val ds = foldl (\<lambda>n c. 10 * n + (of_char c - 48)) 0 ds"

definition norm_port :: "string \<Rightarrow> string \<Rightarrow> string option" where
  \<comment> \<open>the port as serialised: none for the scheme's default, failure above 65535\<close>
  "norm_port sch ds =
     (if \<not> list_all is_digit ds \<or> digits_val ds > 65535 then None
      else if ds = [] then Some []
      else (let d = or_default (dropWhile (\<lambda>c. c = CHR ''0'') ds) ''0''
            in if (sch = ''http'' \<and> d = ''80'') \<or> (sch = ''https'' \<and> d = ''443'')
               then Some [] else Some d))"

definition host_ok :: "string \<Rightarrow> bool" where
  "host_ok h =
     (h \<noteq> [] \<and> list_all host_char h
      \<and> (case filter (\<lambda>l. l \<noteq> []) (split_on CHR ''.'' h) of
            [] \<Rightarrow> False
          | ls \<Rightarrow> is_alpha (hd (last ls))
                 \<and> list_all (\<lambda>l. \<not> starts_with ''xn--'' (toLowerCase l)) ls))"

definition parse_tail :: "string list \<Rightarrow> string \<Rightarrow> (string list \<times> string option \<times> string option) option" where
  \<comment> \<open>path, query and fragment of a text that is empty or starts with \<open>/\<close>, \<open>?\<close> or \<open>#\<close>;
      a path is read on top of the segments \<open>acc\<close>\<close>
  "parse_tail acc t =
     (if \<not> list_all plain_char t then None
      else (let (pq, f) = cut CHR ''#'' t; (p, q) = cut CHR ''?'' pq
            in Some (norm_segs acc (split_on CHR ''/'' (if p = [] then [] else tl p)), q, f)))"

definition parse_abs :: "string \<Rightarrow> url_parts option" where
  "parse_abs s =
     (if \<not> has_scheme s then None
      else (let sch = toLowerCase (takeWhile scheme_char s);
                r = tl (dropWhile scheme_char s)
            in if sch \<notin> {''http'', ''https''} \<or> \<not> starts_with ''//'' r then None
               else (let a = takeWhile (\<lambda>c. c \<notin> set ''/?#'') (drop 2 r);
                         t = dropWhile (\<lambda>c. c \<notin> set ''/?#'') (drop 2 r);
                         (h, po) = cut CHR '':'' a
                     in if \<not> host_ok h then None
                        else (case norm_port sch (case po of None \<Rightarrow> [] | Some ds \<Rightarrow> ds) of
                                None \<Rightarrow> None
                              | Some pt \<Rightarrow>
                                 (case parse_tail [] t of
                                    None \<Rightarrow> None
                                  | Some (segs, q, f) \<Rightarrow>
                                      Some \<lparr>scheme = sch, host = toLowerCase h, port = pt,
                                            path = segs, query = q, fragment = f\<rparr>)))))"

definition origin_of :: "url_parts \<Rightarrow> string" where
  "origin_of u = scheme u @ ''://'' @ host u @ (if port u = [] then [] else '':'' @ port u)"

definition path_of :: "url_parts \<Rightarrow> string" where
  "path_of u = concat (map (\<lambda>s. CHR ''/'' # s) (path u))"

definition to_url :: "url_parts \<Rightarrow> url" where
  "to_url u =
     \<lparr>href = origin_of u @ path_of u
         @ (case query u of None \<Rightarrow> [] | Some q \<Rightarrow> CHR ''?'' # q)
         @ (case fragment u of None \<Rightarrow> [] | Some f \<Rightarrow> CHR ''#'' # f),
      hostname = host u,
      pathname = path_of u\<rparr>"

definition resolve_parts :: "url_parts \<Rightarrow> string \<Rightarrow> url_parts option" where
  "resolve_parts b r =
     (if has_scheme r then parse_abs r
      else if starts_with ''//'' r then parse_abs (scheme b @ '':'' @ r)
      else if r = [] then Some (b\<lparr>fragment := None\<rparr>)
      else if starts_with ''/'' r then
        (case parse_tail [] r of None \<Rightarrow> None
         | Some (segs, q, f) \<Rightarrow> Some (b\<lparr>path := segs, query := q, fragment := f\<rparr>))
      else if starts_with ''?'' r then
        (case parse_tail [] r of None \<Rightarrow> None
         | Some (_, q, f) \<Rightarrow> Some (b\<lparr>query := q, fragment := f\<rparr>))
      else if starts_with ''#'' r then
        (case parse_tail [] r of None \<Rightarrow> None
         | Some (_, _, f) \<Rightarrow> Some (b\<lparr>fragment := f\<rparr>))
      else
        (case parse_tail (butlast (path b)) (CHR ''/'' # r) of None \<Rightarrow> None
         | Some (segs, q, f) \<Rightarrow> Some (b\<lparr>path := segs, query := q, fragment := f\<rparr>)))"

definition std_URL :: "string \<Rightarrow> string option \<Rightarrow> url option" where
  "std_URL s base =
     (case base of
        None \<Rightarrow> map_option to_url (parse_abs s)
      | Some b \<Rightarrow>
          (case parse_abs b of None \<Rightarrow> None
           | Some bp \<Rightarrow> map_option to_url (resolve_parts bp s)))"


section \<open>The document (DOM operations used by processSite)\<close>

definition getAttribute :: "element \<Rightarrow> string \<Rightarrow> string option" where
  "getAttribute el n = map_of (attrs el) n"

definition setAttribute :: "string \<Rightarrow> string \<Rightarrow> element \<Rightarrow> element" where
  "setAttribute n v el = el\<lparr>attrs := AList.update n v (attrs el)\<rparr>"

definition reflected :: "platform \<Rightarrow> string \<Rightarrow> element \<Rightarrow> string \<Rightarrow> string" where
  \<comment> \<open>the properties \<open>el.href\<close> and \<open>el.src\<close>: empty without the attribute, else its value
      resolved against the document's base \<open>b\<close>, or the value itself when that fails\<close>
  "reflected pf b el n =
     (case getAttribute el n of None \<Rightarrow> [] | Some v \<Rightarrow> resolveUrl pf b v)"

definition attr_or_prop :: "platform \<Rightarrow> string \<Rightarrow> element \<Rightarrow> string \<Rightarrow> string" where
  \<comment> \<open>\<open>el.getAttribute(n) || el[n]\<close>\<close>
  "attr_or_prop pf b el n =
     or_default (case getAttribute el n of None \<Rightarrow> [] | Some v \<Rightarrow> v) (reflected pf b el n)"

definition set_attr :: "nat \<Rightarrow> string \<Rightarrow> string \<Rightarrow> document \<Rightarrow> document" where
  \<comment> \<open>\<open>setAttribute\<close> on the element at position \<open>i\<close>\<close>
  "set_attr i n v d = d\<lparr>els := (els d)[i := setAttribute n v (els d ! i)]\<rparr>"

definition query :: "(element \<Rightarrow> bool) \<Rightarrow> document \<Rightarrow> nat list" where
  \<comment> \<open>\<open>querySelectorAll\<close>: the positions of the matching elements, in document order\<close>
  "query P d = filter (\<lambda>i. P (els d ! i)) [0..<length (els d)]"

definition ascii_ws :: "char \<Rightarrow> bool" where
  "ascii_ws c = (c \<in> set [CHR 0x09, CHR 0x0A, CHR 0x0C, CHR 0x0D, CHR 0x20])"

definition rel_of :: "element \<Rightarrow> string" where
  \<comment> \<open>selectors compare the value of \<open>rel\<close> without regard to case in HTML documents\<close>
  "rel_of el = toLowerCase (case getAttribute el ''rel'' of None \<Rightarrow> [] | Some v \<Rightarrow> v)"

definition is_style :: "element \<Rightarrow> bool" where
  "is_style el = (tag el = ''style'')"

definition is_inline_script :: "platform \<Rightarrow> string \<Rightarrow> element \<Rightarrow> bool" where
  \<comment> \<open>\<open>script\<close> elements with \<open>!s.src\<close>\<close>
  "is_inline_script pf b el = (tag el = ''script'' \<and> reflected pf b el ''src'' = [])"

definition is_stylesheet_link :: "element \<Rightarrow> bool" where
  \<comment> \<open>\<open>link[rel="stylesheet"]\<close>\<close>
  "is_stylesheet_link el = (tag el = ''link'' \<and> rel_of el = ''stylesheet'')"

definition is_script_src :: "element \<Rightarrow> bool" where
  \<comment> \<open>\<open>script[src]\<close>\<close>
  "is_script_src el = (tag el = ''script'' \<and> getAttribute el ''src'' \<noteq> None)"

definition is_img :: "element \<Rightarrow> bool" where
  "is_img el = (tag el = ''img'')"

definition is_icon_link :: "element \<Rightarrow> bool" where
  \<comment> \<open>\<open>link[rel~="icon"], link[rel~="shortcut icon"]\<close>: the second alternative never
      matches, a word of a space-separated list has no space\<close>
  "is_icon_link el = (tag el = ''link'' \<and> ''icon'' \<in> set (split_where ascii_ws (rel_of el)))"

definition is_font_preload :: "element \<Rightarrow> bool" where
  \<comment> \<open>\<open>link[rel="preload"][as="font"]\<close>\<close>
  "is_font_preload el =
     (tag el = ''link'' \<and> rel_of el = ''preload'' \<and> getAttribute el ''as'' = Some ''font'')"

definition remove_els :: "(element \<Rightarrow> bool) \<Rightarrow> document \<Rightarrow> document" where
  \<comment> \<open>\<open>remove()\<close> on every element of a class\<close>
  "remove_els P d =
     d\<lparr>els := filter (\<lambda>e. \<not> P e) (els d),
       head_n := length (filter (\<lambda>e. \<not> P e) (take (head_n d) (els d)))\<rparr>"

definition append_head :: "element \<Rightarrow> document \<Rightarrow> document" where
  \<comment> \<open>\<open>doc.head.appendChild(el)\<close>\<close>
  "append_head el d =
     d\<lparr>els := take (head_n d) (els d) @ [el] @ drop (head_n d) (els d),
       head_n := head_n d + 1\<rparr>"

definition append_body :: "element \<Rightarrow> document \<Rightarrow> document" where
  \<comment> \<open>\<open>doc.body.appendChild(el)\<close>\<close>
  "append_body el d = d\<lparr>els := els d @ [el]\<rparr>"

definition combined :: "element list \<Rightarrow> string" where
  \<comment> \<open>each block's text followed by two line feeds\<close>
  "combined es = concat (map (\<lambda>e. textContent e @ [CHR 0x0A, CHR 0x0A]) es)"

section \<open>The state of a run\<close>

datatype call = FetchText string | FetchBlob string

datatype level = Warn | Info | Ok

record asset =
  a_url :: string
  a_fname :: "string option"

record metaInfo =
  cssFiles :: "asset list"
  jsFiles :: "asset list"
  images :: "asset list"
  fonts :: "asset list"
  inlineCssBlocks :: nat
  inlineJsBlocks :: nat
  inlineCssSize :: nat
  inlineJsSize :: nat

text \<open>
  Of the result of \<open>runHeuristicScan\<close> the model keeps the asset counts and the finding on
  their total (lines 148-151 and 202-206); the other findings read the document through
  further selector queries and the clock.
\<close>

record summary =
  s_images :: nat
  s_css :: nat
  s_js :: nat
  s_fonts :: nat
  s_inlineCssBlocks :: nat
  s_inlineJsBlocks :: nat
  totalAssets :: nat
  assetsLevel :: level

datatype content = Text string | Blob string | ReportMd summary | ReportJson summary

text \<open>
  \<open>calls\<close> is the list of the invocations of \<open>fetchText\<close> and \<open>fetchBlob\<close>, oldest first,
  each with the URL it was given.
\<close>

record state =
  doc :: document
  zip :: "string \<rightharpoonup> content"
  meta :: metaInfo
  calls :: "call list"

definition PROXY :: string where
  "PROXY = ''https://api.allorigins.win/raw?url=''"

definition fetchText :: "platform \<Rightarrow> string \<Rightarrow> call list \<Rightarrow> string \<times> call list" where
  \<comment> \<open>every exception of the \<open>try\<close> block ends in \<open>return ''\<close>\<close>
  "fetchText pf u cs =
     ((case encodeURIComponent pf u of
         None \<Rightarrow> []
       | Some e \<Rightarrow>
          (case fetch pf (PROXY @ e) of
             None \<Rightarrow> []
           | Some res \<Rightarrow> if ok res then body res else [])),
      cs @ [FetchText u])"

definition fetchBlob :: "platform \<Rightarrow> string \<Rightarrow> call list \<Rightarrow> string option \<times> call list" where
  \<comment> \<open>every exception of the \<open>try\<close> block ends in \<open>return null\<close>\<close>
  "fetchBlob pf u cs =
     ((case encodeURIComponent pf u of
         None \<Rightarrow> None
       | Some e \<Rightarrow>
          (case fetch pf (PROXY @ e) of
             None \<Rightarrow> None
           | Some res \<Rightarrow> if ok res then Some (body res) else None)),
      cs @ [FetchBlob u])"

definition rootFolder :: string where "rootFolder = ''website/''"
definition cssFolder :: string where "cssFolder = ''website/css/''"
definition jsFolder :: string where "jsFolder = ''website/js/''"
definition imgFolder :: string where "imgFolder = ''website/images/''"
definition fontsFolder :: string where "fontsFolder = ''website/fonts/''"
definition auditFolder :: string where "auditFolder = ''website/audit/''"

definition add_css :: "asset \<Rightarrow> metaInfo \<Rightarrow> metaInfo" where
  "add_css a m = m\<lparr>cssFiles := cssFiles m @ [a]\<rparr>"
definition add_js :: "asset \<Rightarrow> metaInfo \<Rightarrow> metaInfo" where
  "add_js a m = m\<lparr>jsFiles := jsFiles m @ [a]\<rparr>"
definition add_image :: "asset \<Rightarrow> metaInfo \<Rightarrow> metaInfo" where
  "add_image a m = m\<lparr>images := images m @ [a]\<rparr>"
definition add_font :: "asset \<Rightarrow> metaInfo \<Rightarrow> metaInfo" where
  "add_font a m = m\<lparr>fonts := fonts m @ [a]\<rparr>"


section \<open>processSite (app.js, lines 211-452)\<close>

definition font_exts :: "string list" where
  "font_exts = [''woff'', ''woff2'', ''ttf'', ''otf'', ''eot'']"

definition image_exts :: "string list" where
  "image_exts = [''png'', ''jpg'', ''jpeg'', ''gif'', ''svg'', ''webp'', ''avif'']"

definition asset_ext :: "string \<Rightarrow> string" where
  \<comment> \<open>\<open>(u.split('.').pop() || '').split('?')[0].toLowerCase()\<close>\<close>
  "asset_ext u = toLowerCase (hd (split_on CHR ''?'' (last (split_on CHR ''.'' u))))"

definition save_font :: "platform \<Rightarrow> string \<Rightarrow> state \<Rightarrow> state" where
  \<comment> \<open>\<open>fetchBlob\<close>, then on success the file in \<open>fonts/\<close> and the entry of \<open>metaInfo.fonts\<close>\<close>
  "save_font pf u st =
     (case fetchBlob pf u (calls st) of
        (Some b, cs) \<Rightarrow>
          (let fn = fileNameFromUrl pf u
           in st\<lparr>calls := cs, zip := (zip st)(fontsFolder @ fn \<mapsto> Blob b),
                 meta := add_font \<lparr>a_url = u, a_fname = Some fn\<rparr> (meta st)\<rparr>)
      | (None, cs) \<Rightarrow> st\<lparr>calls := cs\<rparr>)"

definition save_image :: "platform \<Rightarrow> string \<Rightarrow> state \<Rightarrow> state" where
  "save_image pf u st =
     (case fetchBlob pf u (calls st) of
        (Some b, cs) \<Rightarrow>
          (let fn = fileNameFromUrl pf u
           in st\<lparr>calls := cs, zip := (zip st)(imgFolder @ fn \<mapsto> Blob b),
                 meta := add_image \<lparr>a_url = u, a_fname = Some fn\<rparr> (meta st)\<rparr>)
      | (None, cs) \<Rightarrow> st\<lparr>calls := cs\<rparr>)"

definition css_asset :: "platform \<Rightarrow> string \<Rightarrow> string \<Rightarrow> state \<Rightarrow> state" where
  \<comment> \<open>lines 291-304: one \<open>url(...)\<close> token \<open>u\<close> of the stylesheet fetched from \<open>resolved\<close>\<close>
  "css_asset pf resolved u st =
     (let assetUrl = resolveUrl pf resolved u; ext = asset_ext assetUrl
      in if ext \<in> set font_exts then save_font pf assetUrl st
         else if ext \<in> set image_exts then save_image pf assetUrl st
         else st)"

definition css_iter :: "platform \<Rightarrow> string \<Rightarrow> nat \<Rightarrow> state \<Rightarrow> state" where
  \<comment> \<open>lines 279-305: the stylesheet link at position \<open>i\<close>\<close>
  "css_iter pf u i st =
     (let href = attr_or_prop pf (baseURI (doc st)) (els (doc st) ! i) ''href'';
          resolved = resolveUrl pf u href;
          (cssText, cs) = fetchText pf resolved (calls st);
          fname = or_default (fileNameFromUrl pf resolved) ''style.css'';
          st1 = st\<lparr>calls := cs, zip := (zip st)(cssFolder @ fname \<mapsto> Text cssText),
                   meta := add_css \<lparr>a_url = resolved, a_fname = Some fname\<rparr> (meta st),
                   doc := set_attr i ''href'' (''css/'' @ fname) (doc st)\<rparr>
      in fold (css_asset pf resolved) (extractUrlsFromCss cssText) st1)"

definition js_iter :: "platform \<Rightarrow> string \<Rightarrow> nat \<Rightarrow> state \<Rightarrow> state" where
  \<comment> \<open>lines 311-320: the script at position \<open>i\<close>\<close>
  "js_iter pf u i st =
     (let src = attr_or_prop pf (baseURI (doc st)) (els (doc st) ! i) ''src'';
          resolved = resolveUrl pf u src;
          (jsText, cs) = fetchText pf resolved (calls st);
          fname = or_default (fileNameFromUrl pf resolved) ''script.js''
      in st\<lparr>calls := cs, zip := (zip st)(jsFolder @ fname \<mapsto> Text jsText),
            meta := add_js \<lparr>a_url = resolved, a_fname = Some fname\<rparr> (meta st),
            doc := set_attr i ''src'' (''js/'' @ fname) (doc st)\<rparr>)"

definition img_iter :: "platform \<Rightarrow> string \<Rightarrow> nat \<Rightarrow> state \<Rightarrow> state" where
  \<comment> \<open>lines 326-340: the image at position \<open>i\<close>; a failed fetch leaves \<open>src\<close> as it is\<close>
  "img_iter pf u i st =
     (let src = attr_or_prop pf (baseURI (doc st)) (els (doc st) ! i) ''src'';
          resolved = resolveUrl pf u src;
          (b, cs) = fetchBlob pf resolved (calls st);
          fn = fileNameFromUrl pf resolved
      in case b of
           Some bytes \<Rightarrow>
             st\<lparr>calls := cs, zip := (zip st)(imgFolder @ fn \<mapsto> Blob bytes),
                doc := set_attr i ''src'' (''images/'' @ fn) (doc st),
                meta := add_image \<lparr>a_url = resolved, a_fname = Some fn\<rparr> (meta st)\<rparr>
         | None \<Rightarrow>
             st\<lparr>calls := cs, meta := add_image \<lparr>a_url = resolved, a_fname = None\<rparr> (meta st)\<rparr>)"

definition icon_phase :: "platform \<Rightarrow> string \<Rightarrow> state \<Rightarrow> state" where
  \<comment> \<open>lines 345-361: the first icon link, or else \<open>/favicon.ico\<close>\<close>
  "icon_phase pf u st =
     (case query is_icon_link (doc st) of
        i # _ \<Rightarrow>
          (let href = attr_or_prop pf (baseURI (doc st)) (els (doc st) ! i) ''href'';
               resolved = resolveUrl pf u href;
               (b, cs) = fetchBlob pf resolved (calls st)
           in case b of
                Some bytes \<Rightarrow>
                  (let fn = or_default (fileNameFromUrl pf resolved) ''favicon.ico''
                   in st\<lparr>calls := cs, zip := (zip st)(rootFolder @ fn \<mapsto> Blob bytes),
                         doc := set_attr i ''href'' fn (doc st)\<rparr>)
              | None \<Rightarrow> st\<lparr>calls := cs\<rparr>)
      | [] \<Rightarrow>
          (let tryFav = resolveUrl pf u ''/favicon.ico'';
               (b, cs) = fetchBlob pf tryFav (calls st)
           in case b of
                Some bytes \<Rightarrow>
                  st\<lparr>calls := cs, zip := (zip st)(rootFolder @ ''favicon.ico'' \<mapsto> Blob bytes)\<rparr>
              | None \<Rightarrow> st\<lparr>calls := cs\<rparr>))"

definition preload_iter :: "platform \<Rightarrow> string \<Rightarrow> nat \<Rightarrow> state \<Rightarrow> state" where
  \<comment> \<open>lines 365-375: the font preload link at position \<open>i\<close>\<close>
  "preload_iter pf u i st =
     (let href = attr_or_prop pf (baseURI (doc st)) (els (doc st) ! i) ''href'';
          resolved = resolveUrl pf u href;
          (b, cs) = fetchBlob pf resolved (calls st)
      in case b of
           Some bytes \<Rightarrow>
             (let fn = fileNameFromUrl pf resolved
              in st\<lparr>calls := cs, zip := (zip st)(fontsFolder @ fn \<mapsto> Blob bytes),
                    doc := set_attr i ''href'' (''fonts/'' @ fn) (doc st),
                    meta := add_font \<lparr>a_url = resolved, a_fname = Some fn\<rparr> (meta st)\<rparr>)
         | None \<Rightarrow> st\<lparr>calls := cs\<rparr>)"

definition inline_asset :: "platform \<Rightarrow> string \<Rightarrow> string \<Rightarrow> state \<Rightarrow> state" where
  \<comment> \<open>lines 379-386: one \<open>url(...)\<close> token \<open>t\<close> of the combined inline CSS; fonts only\<close>
  "inline_asset pf u t st =
     (let resolved = resolveUrl pf u t; ext = asset_ext resolved
      in if ext \<in> set font_exts then save_font pf resolved st else st)"

definition css_phase :: "platform \<Rightarrow> string \<Rightarrow> state \<Rightarrow> state" where
  "css_phase pf u st = fold (css_iter pf u) (query is_stylesheet_link (doc st)) st"

definition js_phase :: "platform \<Rightarrow> string \<Rightarrow> state \<Rightarrow> state" where
  "js_phase pf u st = fold (js_iter pf u) (query is_script_src (doc st)) st"

definition img_phase :: "platform \<Rightarrow> string \<Rightarrow> state \<Rightarrow> state" where
  "img_phase pf u st = fold (img_iter pf u) (query is_img (doc st)) st"

definition preload_phase :: "platform \<Rightarrow> string \<Rightarrow> state \<Rightarrow> state" where
  "preload_phase pf u st = fold (preload_iter pf u) (query is_font_preload (doc st)) st"

definition inline_phase :: "platform \<Rightarrow> string \<Rightarrow> string \<Rightarrow> state \<Rightarrow> state" where
  "inline_phase pf u combinedCSS st =
     fold (inline_asset pf u) (extractUrlsFromCss combinedCSS) st"

definition inline_link :: element where
  "inline_link =
     \<lparr>tag = ''link'', attrs = [(''rel'', ''stylesheet''), (''href'', ''css/inline-styles.css'')],
      textContent = []\<rparr>"

definition inline_script :: element where
  "inline_script =
     \<lparr>tag = ''script'', attrs = [(''src'', ''js/inline-scripts.js'')], textContent = []\<rparr>"

definition styles_of :: "document \<Rightarrow> string" where
  \<comment> \<open>\<open>combinedCSS\<close>, lines 247-248\<close>
  "styles_of d = combined (filter is_style (els d))"

definition scripts_of :: "platform \<Rightarrow> document \<Rightarrow> string" where
  \<comment> \<open>\<open>combinedJS\<close>, lines 250-251, read after the style elements are removed\<close>
  "scripts_of pf d =
     combined (filter (is_inline_script pf (baseURI d)) (els (remove_els is_style d)))"

definition prepare :: "platform \<Rightarrow> document \<Rightarrow> call list \<Rightarrow> state" where
  \<comment> \<open>lines 232-273: the inline blocks leave the document for the two combined files, and
      one link and one script that name these files are appended\<close>
  "prepare pf d0 cs =
     (let combinedCSS = styles_of d0;
          d1 = remove_els is_style d0;
          combinedJS = scripts_of pf d0;
          d2 = remove_els (is_inline_script pf (baseURI d0)) d1;
          metaInfo = \<lparr>cssFiles = [], jsFiles = [], images = [], fonts = [],
                      inlineCssBlocks = length (filter is_style (els d0)),
                      inlineJsBlocks = length (filter (is_inline_script pf (baseURI d0)) (els d1)),
                      inlineCssSize = length combinedCSS, inlineJsSize = length combinedJS\<rparr>;
          (z1, d3) =
            (if trim combinedCSS \<noteq> []
             then ([cssFolder @ ''inline-styles.css'' \<mapsto> Text combinedCSS], append_head inline_link d2)
             else (Map.empty, d2));
          (z2, d4) =
            (if trim combinedJS \<noteq> []
             then (z1(jsFolder @ ''inline-scripts.js'' \<mapsto> Text combinedJS), append_body inline_script d3)
             else (z1, d3))
      in \<lparr>doc = d4, zip = z2, meta = metaInfo, calls = cs\<rparr>)"

definition fetch_assets :: "platform \<Rightarrow> string \<Rightarrow> string \<Rightarrow> state \<Rightarrow> state" where
  \<comment> \<open>lines 275-386, the phases in the order of the source\<close>
  "fetch_assets pf u combinedCSS st =
     inline_phase pf u combinedCSS
       (preload_phase pf u (icon_phase pf u (img_phase pf u (js_phase pf u (css_phase pf u st)))))"

definition runHeuristicScan :: "metaInfo \<Rightarrow> summary" where
  "runHeuristicScan m =
     (let total = length (cssFiles m) + length (jsFiles m) + length (images m) + length (fonts m)
      in \<lparr>s_images = length (images m), s_css = length (cssFiles m), s_js = length (jsFiles m),
          s_fonts = length (fonts m), s_inlineCssBlocks = inlineCssBlocks m,
          s_inlineJsBlocks = inlineJsBlocks m, totalAssets = total,
          assetsLevel = (if total > 40 then Warn else Ok)\<rparr>)"

definition readme :: "string \<Rightarrow> string" where
  "readme u =
     concat (map (\<lambda>l. l @ [CHR 0x0A])
       [''# Website Project (generated)'',
        ''This project was generated from '' @ u,
        ''Open in VS Code to inspect & edit:'',
        ''- index.html'', ''- css/'', ''- js/'', ''- images/'', ''- fonts/'',
        ''- audit/report.md'',
        [],
        ''Notes:'',
        ''- Some assets may not have been fetched due to cross-origin restrictions.'',
        ''- Review audit/report.md for suggested fixes.''])"

text \<open>
  What a run leaves behind: the archive and its name are the value \<open>{blob, zipName}\<close> that
  processSite returns; the document as it is serialised into \<open>index.html\<close>, \<open>metaInfo\<close>,
  the scan result and the fetcher's invocations are kept beside them.
\<close>

record run =
  archive :: "string \<rightharpoonup> content"
  zipName :: string
  page :: document
  info :: metaInfo
  report :: summary
  invoked :: "call list"

definition package :: "platform \<Rightarrow> string \<Rightarrow> string \<Rightarrow> string \<Rightarrow> state \<Rightarrow> run" where
  \<comment> \<open>lines 388-451; \<open>zip.generateAsync\<close> is taken to succeed, the archive is the map of
      its entries\<close>
  "package pf u combinedCSS combinedJS st =
     (let finalHTML = ''<!doctype html>'' @ [CHR 0x0A] @ outerHTML pf (doc st);
          z1 = (zip st)(rootFolder @ ''index.html'' \<mapsto> Text finalHTML);
          z2 = (if trim combinedCSS \<noteq> []
                then z1(cssFolder @ ''inline-styles.css'' \<mapsto> Text combinedCSS) else z1);
          z3 = (if trim combinedJS \<noteq> []
                then z2(jsFolder @ ''inline-scripts.js'' \<mapsto> Text combinedJS) else z2);
          scanResult = runHeuristicScan (meta st);
          z4 = z3(auditFolder @ ''report.md'' \<mapsto> ReportMd scanResult,
                  auditFolder @ ''report.json'' \<mapsto> ReportJson scanResult,
                  rootFolder @ ''README.md'' \<mapsto> Text (readme u))
      in \<lparr>archive = z4, zipName = zipNameOf pf u, page = doc st, info = meta st,
          report = scanResult, invoked = calls st\<rparr>)"

definition processSite :: "platform \<Rightarrow> string \<Rightarrow> run option" where
  \<comment> \<open>\<open>None\<close> is the \<open>return null\<close> of line 223\<close>
  "processSite pf u =
     (let (htmlText, cs) = fetchText pf u []
      in if htmlText = [] then None
         else (let d0 = parseFromString pf htmlText
               in Some (package pf u (styles_of d0) (scripts_of pf d0)
                         (fetch_assets pf u (styles_of d0) (prepare pf d0 cs)))))"


section \<open>A concrete platform for the examples\<close>

definition hex_digit :: "nat \<Rightarrow> char" where
  "hex_digit n = ''0123456789ABCDEF'' ! n"

definition percent :: "nat \<Rightarrow> string" where
  "percent n = [CHR ''%'', hex_digit (n div 16), hex_digit (n mod 16)]"

definition encode_char :: "char \<Rightarrow> string" where
  \<comment> \<open>\<open>encodeURIComponent\<close> on one character below U+0100\<close>
  "encode_char c =
     (let n = (of_char c :: nat)
      in if is_alpha c \<or> is_digit c \<or> c \<in> set ''-_.!~*()'' \<or> c = CHR 0x27 then [c]
         else if n < 128 then percent n
         else percent (192 + n div 64) @ percent (128 + n mod 64))"

definition serve :: "(string \<times> response) list \<Rightarrow> string \<Rightarrow> response option" where
  \<comment> \<open>a network on which the proxy answers for the listed URLs and fails for the others\<close>
  "serve tbl req = map_of (map (\<lambda>(u, r). (PROXY @ concat (map encode_char u), r)) tbl) req"

definition found :: "string \<Rightarrow> response" where
  "found b = \<lparr>ok = True, body = b\<rparr>"

definition print_el :: "element \<Rightarrow> string" where
  "print_el e =
     ''<'' @ tag e
       @ concat (map (\<lambda>(n, v). '' '' @ n @ ''='' @ [CHR 0x22] @ v @ [CHR 0x22]) (attrs e))
       @ ''>''
       @ (if tag e \<in> {''link'', ''img'', ''meta''} then []
          else textContent e @ ''</'' @ tag e @ ''>'')"

definition print_doc :: "document \<Rightarrow> string" where
  "print_doc d =
     ''<html><head>'' @ concat (map print_el (take (head_n d) (els d))) @ ''</head><body>''
       @ concat (map print_el (drop (head_n d) (els d))) @ ''</body></html>''"

definition browser :: "(string \<times> response) list \<Rightarrow> document \<Rightarrow> platform" where
  \<comment> \<open>\<open>d\<close> is the document the parser makes of the page\<close>
  "browser tbl d =
     \<lparr>newURL = std_URL, encodeURIComponent = (\<lambda>u. Some (concat (map encode_char u))),
      fetch = serve tbl, parseFromString = (\<lambda>_. d), outerHTML = print_doc\<rparr>"

definition el :: "string \<Rightarrow> (string \<times> string) list \<Rightarrow> string \<Rightarrow> element" where
  "el t a x = \<lparr>tag = t, attrs = a, textContent = x\<rparr>"

definition blank :: document where
  \<comment> \<open>a document without elements\<close>
  "blank = \<lparr>els = [], head_n = 0, baseURI = []\<rparr>"

section \<open>Notions used in the statements\<close>

subsection \<open>Tokens of the \<open>url(...)\<close> grammar\<close>







subsection \<open>The file name in the words of the specification\<close>





subsection \<open>What the fetcher returns and what a run produces\<close>

definition text_at :: "platform \<Rightarrow> string \<Rightarrow> string" where
  "text_at pf a = fst (fetchText pf a [])"

definition blob_at :: "platform \<Rightarrow> string \<Rightarrow> string option" where
  "blob_at pf a = fst (fetchBlob pf a [])"


text \<open>
  The two ways in which \<open>fetchText\<close> comes to return the empty string: the request fails
  (an exception in the \<open>try\<close> block, or a response that is not \<open>ok\<close>), or it succeeds
  with an empty body.
\<close>

definition fetch_failed :: "platform \<Rightarrow> string \<Rightarrow> bool" where
  "fetch_failed pf a =
     (case encodeURIComponent pf a of
        None \<Rightarrow> True
      | Some e \<Rightarrow> (case fetch pf (PROXY @ e) of None \<Rightarrow> True | Some res \<Rightarrow> \<not> ok res))"

definition fetch_empty :: "platform \<Rightarrow> string \<Rightarrow> bool" where
  "fetch_empty pf a =
     (case encodeURIComponent pf a of
        None \<Rightarrow> False
      | Some e \<Rightarrow> (case fetch pf (PROXY @ e) of None \<Rightarrow> False | Some res \<Rightarrow> ok res \<and> body res = []))"

subsection \<open>Loop bodies over the elements of a query\<close>

definition rewrite_at :: "(element \<Rightarrow> element) \<Rightarrow> nat \<Rightarrow> element list \<Rightarrow> element list" where
  "rewrite_at f i es = es[i := f (es ! i)]"

text \<open>
  A loop body that rewrites_by the element it visits by \<open>f\<close> and leaves the other elements and
  the base alone. \<open>f\<close> may depend on the base.
\<close>

definition rewrites_by :: "(nat \<Rightarrow> state \<Rightarrow> state) \<Rightarrow> (string \<Rightarrow> element \<Rightarrow> element) \<Rightarrow> bool" where
  "rewrites_by step f =
     (\<forall>i st. doc (step i st)
        = (doc st)\<lparr>els := rewrite_at (f (baseURI (doc st))) i (els (doc st))\<rparr>)"

text \<open>
  A loop body that appends_by to a list kept in the state (the invocations, or a list of
  \<open>metaInfo\<close>) what \<open>g\<close> makes of the element it visits.
\<close>

definition appends_by :: "(state \<Rightarrow> 'a list) \<Rightarrow> (nat \<Rightarrow> state \<Rightarrow> state) \<Rightarrow> (string \<Rightarrow> element \<Rightarrow> 'a list) \<Rightarrow> bool" where
  "appends_by obs step g =
     (\<forall>i st. obs (step i st) = obs st @ g (baseURI (doc st)) (els (doc st) ! i))"

subsection \<open>The references of a document\<close>

definition ref_url :: "platform \<Rightarrow> string \<Rightarrow> string \<Rightarrow> element \<Rightarrow> string \<Rightarrow> string" where
  \<comment> \<open>the URL that the loops fetch for the attribute \<open>n\<close> of an element: its value resolved
      against the page URL \<open>u\<close>\<close>
  "ref_url pf u b e n = resolveUrl pf u (attr_or_prop pf b e n)"

definition wanted :: "string \<Rightarrow> bool" where
  "wanted a = (asset_ext a \<in> set font_exts \<or> asset_ext a \<in> set image_exts)"

definition sheet_assets :: "platform \<Rightarrow> string \<Rightarrow> string list" where
  \<comment> \<open>the tokens of the style sheet fetched from \<open>s\<close>, resolved against \<open>s\<close>, that are fetched\<close>
  "sheet_assets pf s =
     filter wanted (map (resolveUrl pf s) (extractUrlsFromCss (text_at pf s)))"

definition sheet_calls :: "platform \<Rightarrow> string \<Rightarrow> string \<Rightarrow> element \<Rightarrow> call list" where
  "sheet_calls pf u b e =
     FetchText (ref_url pf u b e ''href'') # map FetchBlob (sheet_assets pf (ref_url pf u b e ''href''))"

definition css_name :: "platform \<Rightarrow> string \<Rightarrow> string \<Rightarrow> element \<Rightarrow> string" where
  "css_name pf u b e = or_default (fileNameFromUrl pf (ref_url pf u b e ''href'')) ''style.css''"

definition js_name :: "platform \<Rightarrow> string \<Rightarrow> string \<Rightarrow> element \<Rightarrow> string" where
  "js_name pf u b e = or_default (fileNameFromUrl pf (ref_url pf u b e ''src'')) ''script.js''"

definition css_rw :: "platform \<Rightarrow> string \<Rightarrow> string \<Rightarrow> element \<Rightarrow> element" where
  "css_rw pf u b e = setAttribute ''href'' (''css/'' @ css_name pf u b e) e"

definition js_rw :: "platform \<Rightarrow> string \<Rightarrow> string \<Rightarrow> element \<Rightarrow> element" where
  "js_rw pf u b e = setAttribute ''src'' (''js/'' @ js_name pf u b e) e"

definition blob_rw :: "platform \<Rightarrow> string \<Rightarrow> string \<Rightarrow> string \<Rightarrow> string \<Rightarrow> element \<Rightarrow> element" where
  \<comment> \<open>the attribute \<open>n\<close> is rewritten into \<open>folder\<close> when the blob was fetched\<close>
  "blob_rw pf u n folder b e =
     (case blob_at pf (ref_url pf u b e n) of
        Some _ \<Rightarrow> setAttribute n (folder @ fileNameFromUrl pf (ref_url pf u b e n)) e
      | None \<Rightarrow> e)"

definition icon_rw :: "platform \<Rightarrow> string \<Rightarrow> string \<Rightarrow> element \<Rightarrow> element" where
  "icon_rw pf u b e =
     (case blob_at pf (ref_url pf u b e ''href'') of
        Some _ \<Rightarrow>
          setAttribute ''href'' (or_default (fileNameFromUrl pf (ref_url pf u b e ''href'')) ''favicon.ico'') e
      | None \<Rightarrow> e)"

subsection \<open>Rewritings of elements\<close>

definition on :: "(element \<Rightarrow> bool) \<Rightarrow> (element \<Rightarrow> element) \<Rightarrow> element \<Rightarrow> element" where
  "on P f e = (if P e then f e else e)"

text \<open>\<open>stable P r\<close>: the rewriting \<open>r\<close> neither touches nor makes an element of the class \<open>P\<close>.\<close>

definition stable :: "(element \<Rightarrow> bool) \<Rightarrow> (element \<Rightarrow> element) \<Rightarrow> bool" where
  "stable P r = (\<forall>e. P (r e) = P e \<and> (P e \<longrightarrow> r e = e))"

definition icon_url :: "platform \<Rightarrow> string \<Rightarrow> document \<Rightarrow> string" where
  \<comment> \<open>the URL of the icon: that of the first icon link, or else \<open>/favicon.ico\<close> of the site\<close>
  "icon_url pf u d =
     (case filter is_icon_link (els d) of
        e # _ \<Rightarrow> ref_url pf u (baseURI d) e ''href''
      | [] \<Rightarrow> resolveUrl pf u ''/favicon.ico'')"

definition inline_assets :: "platform \<Rightarrow> string \<Rightarrow> string \<Rightarrow> string list" where
  \<comment> \<open>the tokens of the combined inline CSS, resolved against the page, that are fetched\<close>
  "inline_assets pf u css =
     filter (\<lambda>a. asset_ext a \<in> set font_exts) (map (resolveUrl pf u) (extractUrlsFromCss css))"

subsection \<open>The invocations that the phases make\<close>

definition discovered :: "platform \<Rightarrow> string \<Rightarrow> document \<Rightarrow> string \<Rightarrow> call list" where
  \<comment> \<open>one invocation for every reference of the document \<open>d\<close> and of the combined inline
      CSS, in the order of the phases\<close>
  "discovered pf u d css =
     concat (map (sheet_calls pf u (baseURI d)) (filter is_stylesheet_link (els d)))
     @ map (\<lambda>e. FetchText (ref_url pf u (baseURI d) e ''src'')) (filter is_script_src (els d))
     @ map (\<lambda>e. FetchBlob (ref_url pf u (baseURI d) e ''src'')) (filter is_img (els d))
     @ [FetchBlob (icon_url pf u d)]
     @ map (\<lambda>e. FetchBlob (ref_url pf u (baseURI d) e ''href'')) (filter is_font_preload (els d))
     @ map FetchBlob (inline_assets pf u css)"

definition rw3 :: "platform \<Rightarrow> string \<Rightarrow> string \<Rightarrow> element \<Rightarrow> element" where
  \<comment> \<open>what the loops over the style sheets, the scripts and the images make of an element\<close>
  "rw3 pf u b =
     on is_img (blob_rw pf u ''src'' ''images/'' b) \<circ> on is_script_src (js_rw pf u b)
       \<circ> on is_stylesheet_link (css_rw pf u b)"

subsection \<open>The parsed and the prepared document\<close>

definition parsed :: "platform \<Rightarrow> string \<Rightarrow> document" where
  "parsed pf u = parseFromString pf (text_at pf u)"

definition prepared_doc :: "platform \<Rightarrow> document \<Rightarrow> document" where
  "prepared_doc pf d0 = doc (prepare pf d0 [])"

subsection \<open>An example site\<close>

definition demo_doc :: document where
  "demo_doc =
     \<lparr>els =
        [el ''style'' [] ''a{background:url(bg.png)} @font-face{src:url(f/a.woff2)}'',
         el ''link'' [(''rel'', ''stylesheet''), (''href'', ''css/site.css'')] [],
         el ''link'' [(''rel'', ''stylesheet''), (''href'', ''missing.css'')] [],
         el ''img'' [(''src'', ''a.png'')] [],
         el ''img'' [(''src'', ''a.png'')] [],
         el ''img'' [(''src'', ''gone.png'')] [],
         el ''script'' [(''src'', ''app.js'')] []],
      head_n = 3, baseURI = ''https://app.example/''\<rparr>"

definition demo_html :: string where
  \<comment> \<open>the text of the page, of which the parser makes \<open>demo_doc\<close>\<close>
  "demo_html =
     ''<html><head><style>a{background:url(bg.png)} @font-face{src:url(f/a.woff2)}</style>''
     @ ''<link rel=stylesheet href=css/site.css><link rel=stylesheet href=missing.css></head>''
     @ ''<body><img src=a.png><img src=a.png><img src=gone.png><script src=app.js></script>''
     @ ''</body></html>''"

definition demo_url :: string where
  "demo_url = ''https://x.com/''"

definition demo_pf :: platform where
  "demo_pf =
     browser
       [(''https://x.com/'', found demo_html),
        (''https://x.com/css/site.css'', found ''@font-face{src:url(font.woff2)}''),
        (''https://x.com/css/font.woff2'', found ''F''),
        (''https://x.com/a.png'', found ''P''),
        (''https://x.com/app.js'', found []),
        (''https://x.com/f/a.woff2'', found ''G'')]
       demo_doc"

definition demo_run :: run where
  "demo_run = the (processSite demo_pf demo_url)"

definition page_state :: state where
  \<comment> \<open>the example document before the loops, with nothing fetched yet\<close>
  "page_state = prepare demo_pf demo_doc []"

definition empty_pf :: platform where
  \<comment> \<open>the example site serving an empty root document\<close>
  "empty_pf = browser [(''https://x.com/'', found [])] demo_doc"

subsection \<open>The extension in the words of the specification\<close>



section \<open>The grammar of \<open>url(...)\<close> tokens\<close>













section \<open>Evaluating the concrete platform\<close>

lemmas url_eval = std_URL_def parse_abs_def has_scheme_def starts_with_def scheme_char_def
  is_alpha_def is_digit_def toLowerCase_def lower_char_def cut_def host_ok_def host_char_def
  split_on_def norm_port_def digits_val_def or_default_def parse_tail_def plain_char_def
  to_url_def origin_of_def path_of_def resolve_parts_def Let_def

lemma parse_example_port:
  "std_URL ''https://Example.com:8080/x'' None
   = Some \<lparr>href = ''https://example.com:8080/x'', hostname = ''example.com'', pathname = ''/x''\<rparr>"
  by (simp add: url_eval)



section \<open>File names: the specification's derivation\<close>

lemma split_where_ne [simp]: "split_where P s \<noteq> []"
  by (induction s) (auto split: list.splits)




lemma filter_butlast_snoc:
  "ys \<noteq> [] \<Longrightarrow> y \<noteq> [] \<Longrightarrow> last (filter (\<lambda>s. s \<noteq> []) (butlast ys @ [y])) = y"
  by simp



section \<open>Sanitising the archive name\<close>

lemma safeName_safe: "list_all (\<lambda>c. \<not> unsafe_char c) s \<Longrightarrow> safeName s = s"
  by (induction s) auto

lemma safeName_unsafe_run:
  assumes "run \<noteq> []" "list_all unsafe_char run" "post = [] \<or> \<not> unsafe_char (hd post)"
  shows "safeName (run @ post) = CHR ''-'' # safeName post"
proof -
  from assms(1) obtain c cs where r: "run = c # cs" by (cases run) auto
  with assms(2) have c: "unsafe_char c" and cs: "\<forall>x\<in>set cs. unsafe_char x"
    by (auto simp: list_all_iff)
  have "dropWhile unsafe_char (cs @ post) = post"
    using cs assms(3) by (cases post) (auto simp: dropWhile_append2)
  with c r show ?thesis by simp
qed

lemma safeName_run:
  assumes "list_all (\<lambda>c. \<not> unsafe_char c) pre" "run \<noteq> []" "list_all unsafe_char run"
    "post = [] \<or> \<not> unsafe_char (hd post)"
  shows "safeName (pre @ run @ post) = pre @ CHR ''-'' # safeName post"
  using assms(1)
proof (induction pre)
  case Nil
  show ?case using safeName_unsafe_run[OF assms(2,3,4)] by simp
next
  case (Cons a pre)
  then show ?case by simp
qed

lemma safeName_clean: "list_all (\<lambda>c. \<not> unsafe_char c) (safeName s)"
  by (induction s rule: safeName.induct) (auto simp: unsafe_char_def)

section \<open>What the fetcher returns, and the value of processSite\<close>

lemma fetchText_eq: "fetchText pf a cs = (text_at pf a, cs @ [FetchText a])"
  by (simp add: fetchText_def text_at_def)

lemma fetchBlob_eq: "fetchBlob pf a cs = (blob_at pf a, cs @ [FetchBlob a])"
  by (simp add: fetchBlob_def blob_at_def)

lemma processSite_None: "text_at pf u = [] \<Longrightarrow> processSite pf u = None"
  by (simp add: processSite_def fetchText_eq)

lemma processSite_Some:
  "text_at pf u \<noteq> [] \<Longrightarrow>
   processSite pf u =
     Some (package pf u (styles_of (parseFromString pf (text_at pf u)))
            (scripts_of pf (parseFromString pf (text_at pf u)))
            (fetch_assets pf u (styles_of (parseFromString pf (text_at pf u)))
               (prepare pf (parseFromString pf (text_at pf u)) [FetchText u])))"
  by (simp add: processSite_def fetchText_eq Let_def)

lemmas folder_defs = rootFolder_def cssFolder_def jsFolder_def imgFolder_def fontsFolder_def
  auditFolder_def


lemma package_fixed:
  "archive (package pf u css js st) (rootFolder @ ''README.md'') = Some (Text (readme u))"
  "archive (package pf u css js st) (auditFolder @ ''report.md'')
     = Some (ReportMd (runHeuristicScan (meta st)))"
  "archive (package pf u css js st) (auditFolder @ ''report.json'')
     = Some (ReportJson (runHeuristicScan (meta st)))"
  "zipName (package pf u css js st) = zipNameOf pf u"
  "page (package pf u css js st) = doc st"
  "info (package pf u css js st) = meta st"
  "invoked (package pf u css js st) = calls st"
  "report (package pf u css js st) = runHeuristicScan (meta st)"
  by (simp_all add: package_def Let_def folder_defs)

lemma fetch_failed_text: "fetch_failed pf a \<Longrightarrow> text_at pf a = []"
  by (auto simp: fetch_failed_def text_at_def fetchText_def split: option.splits)

lemma fetch_failed_blob: "fetch_failed pf a \<Longrightarrow> blob_at pf a = None"
  by (auto simp: fetch_failed_def blob_at_def fetchBlob_def split: option.splits)

lemma fetch_empty_text: "fetch_empty pf a \<Longrightarrow> text_at pf a = []"
  by (auto simp: fetch_empty_def text_at_def fetchText_def split: option.splits)

lemma text_at_empty_iff: "text_at pf a = [] \<longleftrightarrow> fetch_failed pf a \<or> fetch_empty pf a"
  by (auto simp: fetch_failed_def fetch_empty_def text_at_def fetchText_def split: option.splits)

lemma css_iter_empty:
  assumes "text_at pf (resolveUrl pf u (attr_or_prop pf (baseURI (doc st)) (els (doc st) ! i) ''href'')) = []"
  shows "css_iter pf u i st =
     (let s = resolveUrl pf u (attr_or_prop pf (baseURI (doc st)) (els (doc st) ! i) ''href'');
          fname = or_default (fileNameFromUrl pf s) ''style.css''
      in st\<lparr>calls := calls st @ [FetchText s], zip := (zip st)(cssFolder @ fname \<mapsto> Text []),
            meta := add_css \<lparr>a_url = s, a_fname = Some fname\<rparr> (meta st),
            doc := set_attr i ''href'' (''css/'' @ fname) (doc st)\<rparr>)"
  using assms by (simp add: css_iter_def Let_def fetchText_eq)

lemma js_iter_empty:
  assumes "text_at pf (resolveUrl pf u (attr_or_prop pf (baseURI (doc st)) (els (doc st) ! i) ''src'')) = []"
  shows "js_iter pf u i st =
     (let s = resolveUrl pf u (attr_or_prop pf (baseURI (doc st)) (els (doc st) ! i) ''src'');
          fname = or_default (fileNameFromUrl pf s) ''script.js''
      in st\<lparr>calls := calls st @ [FetchText s], zip := (zip st)(jsFolder @ fname \<mapsto> Text []),
            meta := add_js \<lparr>a_url = s, a_fname = Some fname\<rparr> (meta st),
            doc := set_attr i ''src'' (''js/'' @ fname) (doc st)\<rparr>)"
  using assms by (simp add: js_iter_def Let_def fetchText_eq)

section \<open>Loops over the elements selected by a query\<close>

lemma fold_rewrite_length [simp]: "length (fold (rewrite_at f) is es) = length es"
  by (induction "is" arbitrary: es) (auto simp: rewrite_at_def)

lemma fold_rewrite_nth:
  "distinct is \<Longrightarrow> j < length es \<Longrightarrow>
   fold (rewrite_at f) is es ! j = (if j \<in> set is then f (es ! j) else es ! j)"
proof (induction "is" arbitrary: es)
  case Nil
  then show ?case by simp
next
  case (Cons i "is")
  then show ?case
    by (cases "i = j") (auto simp: rewrite_at_def)
qed

lemma distinct_query [simp]: "distinct (query P d)"
  by (simp add: query_def)

lemma fold_rewrite_query:
  "fold (rewrite_at f) (query P d) (els d) = map (\<lambda>e. if P e then f e else e) (els d)"
  by (rule nth_equalityI) (auto simp: fold_rewrite_nth query_def)

lemma map_query: "map (\<lambda>i. g (els d ! i)) (query P d) = map g (filter P (els d))"
proof -
  have "map g (filter P (els d)) = map g (filter P (map (\<lambda>i. els d ! i) [0..<length (els d)]))"
    by (simp add: map_nth)
  also have "\<dots> = map (\<lambda>i. g (els d ! i)) (query P d)"
    by (simp add: filter_map query_def comp_def)
  finally show ?thesis by simp
qed

lemma fold_rewrites:
  assumes "rewrites_by step f"
  shows "doc (fold step is st) = (doc st)\<lparr>els := fold (rewrite_at (f (baseURI (doc st)))) is (els (doc st))\<rparr>"
proof (induction "is" arbitrary: st)
  case Nil
  then show ?case by simp
next
  case (Cons i "is")
  have "doc (step i st) = (doc st)\<lparr>els := rewrite_at (f (baseURI (doc st))) i (els (doc st))\<rparr>"
    using assms by (simp add: rewrites_by_def)
  then show ?case by (simp add: Cons.IH)
qed

lemma fold_rewrites_query:
  assumes "rewrites_by step f"
  shows "doc (fold step (query P (doc st)) st)
     = (doc st)\<lparr>els := map (\<lambda>e. if P e then f (baseURI (doc st)) e else e) (els (doc st))\<rparr>"
  by (simp add: fold_rewrites[OF assms] fold_rewrite_query)

lemma fold_appends:
  assumes "rewrites_by step f" "appends_by obs step g" "distinct is"
  shows "obs (fold step is st) = obs st @ concat (map (\<lambda>i. g (baseURI (doc st)) (els (doc st) ! i)) is)"
  using assms(3)
proof (induction "is" arbitrary: st)
  case Nil
  then show ?case by simp
next
  case (Cons i "is")
  have d: "doc (step i st) = (doc st)\<lparr>els := rewrite_at (f (baseURI (doc st))) i (els (doc st))\<rparr>"
    using assms(1) by (simp add: rewrites_by_def)
  have o: "obs (step i st) = obs st @ g (baseURI (doc st)) (els (doc st) ! i)"
    using assms(2) by (simp add: appends_by_def)
  have "\<And>j. j \<in> set is \<Longrightarrow> els (doc (step i st)) ! j = els (doc st) ! j"
  proof -
    fix j assume "j \<in> set is"
    with Cons.prems have "i \<noteq> j" by auto
    then show "els (doc (step i st)) ! j = els (doc st) ! j"
      by (simp add: d rewrite_at_def)
  qed
  then have m: "map (\<lambda>j. g (baseURI (doc (step i st))) (els (doc (step i st)) ! j)) is
       = map (\<lambda>j. g (baseURI (doc st)) (els (doc st) ! j)) is"
    by (simp add: d)
  have "obs (fold step (i # is) st) = obs (fold step is (step i st))" by simp
  also have "\<dots> = obs (step i st)
      @ concat (map (\<lambda>j. g (baseURI (doc (step i st))) (els (doc (step i st)) ! j)) is)"
    using Cons.prems by (intro Cons.IH) simp
  finally show ?case unfolding m o by simp
qed

lemma fold_appends_query:
  assumes "rewrites_by step f" "appends_by obs step g"
  shows "obs (fold step (query P (doc st)) st)
     = obs st @ concat (map (g (baseURI (doc st))) (filter P (els (doc st))))"
  using fold_appends[OF assms distinct_query, of P "doc st" st] map_query[of "g (baseURI (doc st))" "doc st" P]
  by simp

text \<open>A loop body that leaves a component of the state alone.\<close>

lemma fold_keeps:
  assumes "\<And>i st. obs (step i st) = obs st"
  shows "obs (fold step is st) = obs st"
  by (induction "is" arbitrary: st) (simp_all add: assms)

section \<open>The references of a document and what each loop body does\<close>

subsection \<open>Fonts and images of a style sheet\<close>

lemma save_font_doc [simp]: "doc (save_font pf a st) = doc st"
  by (simp add: save_font_def fetchBlob_eq Let_def split: option.splits)

lemma save_image_doc [simp]: "doc (save_image pf a st) = doc st"
  by (simp add: save_image_def fetchBlob_eq Let_def split: option.splits)

lemma save_font_calls [simp]: "calls (save_font pf a st) = calls st @ [FetchBlob a]"
  by (simp add: save_font_def fetchBlob_eq Let_def split: option.splits)

lemma save_image_calls [simp]: "calls (save_image pf a st) = calls st @ [FetchBlob a]"
  by (simp add: save_image_def fetchBlob_eq Let_def split: option.splits)

lemma save_font_css [simp]:
  "cssFiles (meta (save_font pf a st)) = cssFiles (meta st)"
  "jsFiles (meta (save_font pf a st)) = jsFiles (meta st)"
  by (simp_all add: save_font_def fetchBlob_eq Let_def add_font_def split: option.splits)

lemma save_image_css [simp]:
  "cssFiles (meta (save_image pf a st)) = cssFiles (meta st)"
  "jsFiles (meta (save_image pf a st)) = jsFiles (meta st)"
  by (simp_all add: save_image_def fetchBlob_eq Let_def add_image_def split: option.splits)

lemma css_asset_doc [simp]: "doc (css_asset pf s t st) = doc st"
  by (simp add: css_asset_def Let_def)

lemma css_asset_css [simp]:
  "cssFiles (meta (css_asset pf s t st)) = cssFiles (meta st)"
  "jsFiles (meta (css_asset pf s t st)) = jsFiles (meta st)"
  by (simp_all add: css_asset_def Let_def)

lemma css_asset_calls:
  "calls (css_asset pf s t st)
     = calls st @ map FetchBlob (filter wanted [resolveUrl pf s t])"
  by (simp add: css_asset_def Let_def wanted_def)

lemma fold_css_asset_doc [simp]: "doc (fold (css_asset pf s) ts st) = doc st"
  by (induction ts arbitrary: st) simp_all

lemma fold_css_asset_css [simp]:
  "cssFiles (meta (fold (css_asset pf s) ts st)) = cssFiles (meta st)"
  "jsFiles (meta (fold (css_asset pf s) ts st)) = jsFiles (meta st)"
  by (induction ts arbitrary: st) simp_all

lemma fold_css_asset_calls:
  "calls (fold (css_asset pf s) ts st)
     = calls st @ map FetchBlob (filter wanted (map (resolveUrl pf s) ts))"
  by (induction ts arbitrary: st) (simp_all add: css_asset_calls)

subsection \<open>The loop bodies\<close>

lemma css_iter_doc:
  "doc (css_iter pf u i st)
     = (doc st)\<lparr>els := rewrite_at (css_rw pf u (baseURI (doc st))) i (els (doc st))\<rparr>"
  by (simp add: css_iter_def Let_def fetchText_eq set_attr_def rewrite_at_def css_rw_def
      css_name_def ref_url_def)

lemma css_iter_calls:
  "calls (css_iter pf u i st) = calls st @ sheet_calls pf u (baseURI (doc st)) (els (doc st) ! i)"
  by (simp add: css_iter_def Let_def fetchText_eq fold_css_asset_calls sheet_calls_def
      sheet_assets_def ref_url_def)


lemma js_iter_doc:
  "doc (js_iter pf u i st)
     = (doc st)\<lparr>els := rewrite_at (js_rw pf u (baseURI (doc st))) i (els (doc st))\<rparr>"
  by (simp add: js_iter_def Let_def fetchText_eq set_attr_def rewrite_at_def js_rw_def
      js_name_def ref_url_def)

lemma js_iter_calls:
  "calls (js_iter pf u i st)
     = calls st @ [FetchText (ref_url pf u (baseURI (doc st)) (els (doc st) ! i) ''src'')]"
  by (simp add: js_iter_def Let_def fetchText_eq ref_url_def)

lemma img_iter_doc:
  "doc (img_iter pf u i st)
     = (doc st)\<lparr>els := rewrite_at (blob_rw pf u ''src'' ''images/'' (baseURI (doc st))) i (els (doc st))\<rparr>"
  by (simp add: img_iter_def Let_def fetchBlob_eq set_attr_def rewrite_at_def blob_rw_def
      ref_url_def split: option.splits)

lemma img_iter_calls:
  "calls (img_iter pf u i st)
     = calls st @ [FetchBlob (ref_url pf u (baseURI (doc st)) (els (doc st) ! i) ''src'')]"
  by (simp add: img_iter_def Let_def fetchBlob_eq ref_url_def split: option.splits)

lemma preload_iter_doc:
  "doc (preload_iter pf u i st)
     = (doc st)\<lparr>els := rewrite_at (blob_rw pf u ''href'' ''fonts/'' (baseURI (doc st))) i (els (doc st))\<rparr>"
  by (simp add: preload_iter_def Let_def fetchBlob_eq set_attr_def rewrite_at_def blob_rw_def
      ref_url_def split: option.splits)

lemma preload_iter_calls:
  "calls (preload_iter pf u i st)
     = calls st @ [FetchBlob (ref_url pf u (baseURI (doc st)) (els (doc st) ! i) ''href'')]"
  by (simp add: preload_iter_def Let_def fetchBlob_eq ref_url_def split: option.splits)

subsection \<open>Attributes and selectors under rewriting\<close>

lemma tag_setAttribute [simp]: "tag (setAttribute n v e) = tag e"
  by (simp add: setAttribute_def)

lemma getAttribute_setAttribute [simp]:
  "getAttribute (setAttribute n v e) m = (if m = n then Some v else getAttribute e m)"
  by (simp add: getAttribute_def setAttribute_def update_conv')

lemma rel_of_setAttribute [simp]: "n \<noteq> ''rel'' \<Longrightarrow> rel_of (setAttribute n v e) = rel_of e"
  by (simp add: rel_of_def)

lemma words_stylesheet: "split_where ascii_ws ''stylesheet'' = [''stylesheet'']"
  by (simp add: ascii_ws_def)

lemma words_preload: "split_where ascii_ws ''preload'' = [''preload'']"
  by (simp add: ascii_ws_def)

lemma stylesheet_not_icon: "is_stylesheet_link e \<Longrightarrow> \<not> is_icon_link e"
  by (simp add: is_stylesheet_link_def is_icon_link_def words_stylesheet)

lemma preload_not_icon: "is_font_preload e \<Longrightarrow> \<not> is_icon_link e"
  by (simp add: is_font_preload_def is_icon_link_def words_preload)

lemmas sel_defs = is_stylesheet_link_def is_script_src_def is_img_def is_icon_link_def
  is_font_preload_def

lemmas rw_defs = on_def css_rw_def js_rw_def blob_rw_def icon_rw_def

lemma stable_css:
  "stable is_script_src (on is_stylesheet_link (css_rw pf u b))"
  "stable is_img (on is_stylesheet_link (css_rw pf u b))"
  "stable is_icon_link (on is_stylesheet_link (css_rw pf u b))"
  "stable is_font_preload (on is_stylesheet_link (css_rw pf u b))"
  by (auto simp: stable_def rw_defs sel_defs words_stylesheet)

lemma stable_js:
  "stable is_img (on is_script_src (js_rw pf u b))"
  "stable is_icon_link (on is_script_src (js_rw pf u b))"
  "stable is_font_preload (on is_script_src (js_rw pf u b))"
  by (auto simp: stable_def rw_defs sel_defs)

lemma stable_img:
  "stable is_icon_link (on is_img (blob_rw pf u ''src'' ''images/'' b))"
  "stable is_font_preload (on is_img (blob_rw pf u ''src'' ''images/'' b))"
  by (auto simp: stable_def rw_defs sel_defs split: option.splits)

lemma stable_icon:
  "stable is_font_preload (on is_icon_link (icon_rw pf u b))"
  by (auto simp: stable_def rw_defs sel_defs words_preload split: option.splits)

lemma stable_comp: "stable P r \<Longrightarrow> stable P r' \<Longrightarrow> stable P (r' \<circ> r)"
  by (simp add: stable_def)

lemma filter_stable: "stable P r \<Longrightarrow> filter P (map r xs) = filter P xs"
  by (induction xs) (auto simp: stable_def)

lemma map_stable: "stable P r \<Longrightarrow> map g (filter P (map r xs)) = map g (filter P xs)"
  by (simp add: filter_stable)

lemma query_stable:
  "stable P r \<Longrightarrow> query P (d\<lparr>els := map r (els d)\<rparr>) = query P d"
  by (auto simp: query_def stable_def intro: filter_cong)

lemma query_nth: "i \<in> set (query P d) \<Longrightarrow> i < length (els d) \<and> P (els d ! i)"
  by (simp add: query_def)

subsection \<open>The phases\<close>

lemma css_rewrites: "rewrites_by (css_iter pf u) (css_rw pf u)"
  by (simp add: rewrites_by_def css_iter_doc)

lemma js_rewrites: "rewrites_by (js_iter pf u) (js_rw pf u)"
  by (simp add: rewrites_by_def js_iter_doc)

lemma img_rewrites: "rewrites_by (img_iter pf u) (blob_rw pf u ''src'' ''images/'')"
  by (simp add: rewrites_by_def img_iter_doc)

lemma preload_rewrites: "rewrites_by (preload_iter pf u) (blob_rw pf u ''href'' ''fonts/'')"
  by (simp add: rewrites_by_def preload_iter_doc)

lemma css_phase_doc:
  "doc (css_phase pf u st)
     = (doc st)\<lparr>els := map (on is_stylesheet_link (css_rw pf u (baseURI (doc st)))) (els (doc st))\<rparr>"
  unfolding css_phase_def on_def by (rule fold_rewrites_query[OF css_rewrites])

lemma js_phase_doc:
  "doc (js_phase pf u st)
     = (doc st)\<lparr>els := map (on is_script_src (js_rw pf u (baseURI (doc st)))) (els (doc st))\<rparr>"
  unfolding js_phase_def on_def by (rule fold_rewrites_query[OF js_rewrites])

lemma img_phase_doc:
  "doc (img_phase pf u st)
     = (doc st)\<lparr>els := map (on is_img (blob_rw pf u ''src'' ''images/'' (baseURI (doc st)))) (els (doc st))\<rparr>"
  unfolding img_phase_def on_def by (rule fold_rewrites_query[OF img_rewrites])

lemma preload_phase_doc:
  "doc (preload_phase pf u st)
     = (doc st)\<lparr>els := map (on is_font_preload (blob_rw pf u ''href'' ''fonts/'' (baseURI (doc st))))
                         (els (doc st))\<rparr>"
  unfolding preload_phase_def on_def by (rule fold_rewrites_query[OF preload_rewrites])

lemma css_phase_calls:
  "calls (css_phase pf u st)
     = calls st @ concat (map (sheet_calls pf u (baseURI (doc st)))
                            (filter is_stylesheet_link (els (doc st))))"
  unfolding css_phase_def
  by (rule fold_appends_query[OF css_rewrites]) (simp add: appends_by_def css_iter_calls)


lemma js_phase_calls:
  "calls (js_phase pf u st)
     = calls st @ map (\<lambda>e. FetchText (ref_url pf u (baseURI (doc st)) e ''src''))
                    (filter is_script_src (els (doc st)))"
proof -
  have "appends_by calls (js_iter pf u) (\<lambda>b e. [FetchText (ref_url pf u b e ''src'')])"
    by (simp add: appends_by_def js_iter_calls)
  from fold_appends_query[OF js_rewrites this, of is_script_src st]
  show ?thesis by (simp add: js_phase_def concat_map_singleton)
qed

lemma img_phase_calls:
  "calls (img_phase pf u st)
     = calls st @ map (\<lambda>e. FetchBlob (ref_url pf u (baseURI (doc st)) e ''src''))
                    (filter is_img (els (doc st)))"
proof -
  have "appends_by calls (img_iter pf u) (\<lambda>b e. [FetchBlob (ref_url pf u b e ''src'')])"
    by (simp add: appends_by_def img_iter_calls)
  from fold_appends_query[OF img_rewrites this, of is_img st]
  show ?thesis by (simp add: img_phase_def concat_map_singleton)
qed

lemma preload_phase_calls:
  "calls (preload_phase pf u st)
     = calls st @ map (\<lambda>e. FetchBlob (ref_url pf u (baseURI (doc st)) e ''href''))
                    (filter is_font_preload (els (doc st)))"
proof -
  have "appends_by calls (preload_iter pf u) (\<lambda>b e. [FetchBlob (ref_url pf u b e ''href'')])"
    by (simp add: appends_by_def preload_iter_calls)
  from fold_appends_query[OF preload_rewrites this, of is_font_preload st]
  show ?thesis by (simp add: preload_phase_def concat_map_singleton)
qed

lemma filter_query: "filter P (els d) = map (\<lambda>i. els d ! i) (query P d)"
  using map_query[of id d P] by simp

lemma query_Nil: "query P d = [] \<longleftrightarrow> filter P (els d) = []"
  by (simp add: filter_query)

lemma query_Cons: "query P d = i # is \<Longrightarrow> \<exists>es. filter P (els d) = els d ! i # es"
  by (simp add: filter_query)

lemma icon_phase_calls:
  "calls (icon_phase pf u st) = calls st @ [FetchBlob (icon_url pf u (doc st))]"
proof (cases "query is_icon_link (doc st)")
  case Nil
  then have "filter is_icon_link (els (doc st)) = []" by (simp add: query_Nil)
  with Nil show ?thesis
    by (simp add: icon_phase_def icon_url_def Let_def fetchBlob_eq split: option.splits)
next
  case (Cons i "is")
  then obtain es where "filter is_icon_link (els (doc st)) = els (doc st) ! i # es"
    by (auto dest: query_Cons)
  with Cons show ?thesis
    by (simp add: icon_phase_def icon_url_def Let_def fetchBlob_eq ref_url_def split: option.splits)
qed

lemma icon_phase_doc:
  "doc (icon_phase pf u st)
     = (case query is_icon_link (doc st) of
          i # _ \<Rightarrow> (doc st)\<lparr>els := rewrite_at (icon_rw pf u (baseURI (doc st))) i (els (doc st))\<rparr>
        | [] \<Rightarrow> doc st)"
  by (simp add: icon_phase_def Let_def fetchBlob_eq set_attr_def rewrite_at_def icon_rw_def
      ref_url_def split: option.splits list.splits)

lemma inline_asset_doc [simp]: "doc (inline_asset pf u t st) = doc st"
  by (simp add: inline_asset_def Let_def)

lemma inline_asset_calls:
  "calls (inline_asset pf u t st)
     = calls st @ map FetchBlob (filter (\<lambda>a. asset_ext a \<in> set font_exts) [resolveUrl pf u t])"
  by (simp add: inline_asset_def Let_def)

lemma inline_phase_doc [simp]: "doc (inline_phase pf u css st) = doc st"
  unfolding inline_phase_def by (rule fold_keeps) simp

lemma fold_inline_calls:
  "calls (fold (inline_asset pf u) ts st)
     = calls st @ map FetchBlob (filter (\<lambda>a. asset_ext a \<in> set font_exts) (map (resolveUrl pf u) ts))"
  by (induction ts arbitrary: st) (simp_all add: inline_asset_calls)

lemma inline_phase_calls:
  "calls (inline_phase pf u css st) = calls st @ map FetchBlob (inline_assets pf u css)"
  by (simp add: inline_phase_def fold_inline_calls inline_assets_def)

subsection \<open>All the phases together\<close>

lemma stable_rw3:
  "stable is_icon_link (rw3 pf u b)" "stable is_font_preload (rw3 pf u b)"
  unfolding rw3_def
  by (intro stable_comp stable_css stable_js stable_img)+

lemma three_phases_doc:
  "doc (img_phase pf u (js_phase pf u (css_phase pf u st)))
     = (doc st)\<lparr>els := map (rw3 pf u (baseURI (doc st))) (els (doc st))\<rparr>"
  by (simp add: img_phase_doc js_phase_doc css_phase_doc rw3_def)

lemma three_phases_calls:
  "calls (img_phase pf u (js_phase pf u (css_phase pf u st)))
     = calls st
       @ concat (map (sheet_calls pf u (baseURI (doc st))) (filter is_stylesheet_link (els (doc st))))
       @ map (\<lambda>e. FetchText (ref_url pf u (baseURI (doc st)) e ''src''))
           (filter is_script_src (els (doc st)))
       @ map (\<lambda>e. FetchBlob (ref_url pf u (baseURI (doc st)) e ''src''))
           (filter is_img (els (doc st)))"
proof -
  let ?b = "baseURI (doc st)"
  let ?r1 = "on is_stylesheet_link (css_rw pf u ?b)"
  let ?r2 = "on is_script_src (js_rw pf u ?b)"
  have s: "filter is_script_src (map ?r1 (els (doc st))) = filter is_script_src (els (doc st))"
    by (rule filter_stable[OF stable_css(1)])
  have "filter is_img (map ?r2 (map ?r1 (els (doc st)))) = filter is_img (map ?r1 (els (doc st)))"
    by (rule filter_stable[OF stable_js(1)])
  also have "\<dots> = filter is_img (els (doc st))"
    by (rule filter_stable[OF stable_css(2)])
  finally have i: "filter is_img (map ?r2 (map ?r1 (els (doc st)))) = filter is_img (els (doc st))" .
  show ?thesis
    using s i
    by (simp add: img_phase_calls js_phase_calls css_phase_calls js_phase_doc css_phase_doc comp_def)
qed

lemma filter_rewrite_at:
  assumes "i < length es" "\<not> P (es ! i)" "\<not> P (f (es ! i))"
  shows "filter P (rewrite_at f i es) = filter P es"
proof -
  have "filter P (rewrite_at f i es) = filter P (take i es @ f (es ! i) # drop (Suc i) es)"
    using assms(1) by (simp add: rewrite_at_def upd_conv_take_nth_drop)
  also have "\<dots> = filter P (take i es @ es ! i # drop (Suc i) es)"
    using assms(2,3) by simp
  also have "\<dots> = filter P es"
    using assms(1) by (simp add: id_take_nth_drop[symmetric])
  finally show ?thesis .
qed

lemma icon_phase_preloads:
  "filter is_font_preload (els (doc (icon_phase pf u st))) = filter is_font_preload (els (doc st))"
proof (cases "query is_icon_link (doc st)")
  case Nil
  then show ?thesis by (simp add: icon_phase_doc)
next
  case (Cons i "is")
  then have i: "i < length (els (doc st))" "is_icon_link (els (doc st) ! i)"
    using query_nth[of i is_icon_link "doc st"] by simp_all
  have a: "\<not> is_font_preload (els (doc st) ! i)"
    using i(2) preload_not_icon by blast
  have "is_font_preload (on is_icon_link (icon_rw pf u (baseURI (doc st))) (els (doc st) ! i))
        = is_font_preload (els (doc st) ! i)"
    using stable_icon[of pf u "baseURI (doc st)"] by (simp add: stable_def)
  with a i(2) have b: "\<not> is_font_preload (icon_rw pf u (baseURI (doc st)) (els (doc st) ! i))"
    by (simp add: on_def)
  show ?thesis
    using Cons
      filter_rewrite_at[of i "els (doc st)" is_font_preload "icon_rw pf u (baseURI (doc st))", OF i(1) a b]
    by (simp add: icon_phase_doc)
qed

lemma icon_phase_base [simp]: "baseURI (doc (icon_phase pf u st)) = baseURI (doc st)"
  by (simp add: icon_phase_doc split: list.splits)

lemma icon_url_stable:
  "stable is_icon_link r \<Longrightarrow> icon_url pf u (d\<lparr>els := map r (els d)\<rparr>) = icon_url pf u d"
proof -
  assume s: "stable is_icon_link r"
  have f: "filter is_icon_link (els d) = filter is_icon_link (filter is_icon_link (els d))" by simp
  have "filter is_icon_link (map r (els d)) = filter is_icon_link (els d)"
    by (rule filter_stable[OF s])
  then show ?thesis by (simp add: icon_url_def split: list.splits)
qed

lemma fetch_assets_calls:
  "calls (fetch_assets pf u css st) = calls st @ discovered pf u (doc st) css"
proof -
  let ?b = "baseURI (doc st)"
  let ?st3 = "img_phase pf u (js_phase pf u (css_phase pf u st))"
  have d3: "doc ?st3 = (doc st)\<lparr>els := map (rw3 pf u ?b) (els (doc st))\<rparr>"
    by (rule three_phases_doc)
  have ic: "icon_url pf u (doc ?st3) = icon_url pf u (doc st)"
    unfolding d3 by (rule icon_url_stable[OF stable_rw3(1)])
  have pl: "filter is_font_preload (els (doc (icon_phase pf u ?st3)))
      = filter is_font_preload (els (doc st))"
    unfolding icon_phase_preloads d3 by (simp add: filter_stable[OF stable_rw3(2)])
  have b3: "baseURI (doc ?st3) = ?b" by (simp add: d3)
  show ?thesis
    unfolding fetch_assets_def inline_phase_calls preload_phase_calls icon_phase_calls
      icon_phase_base pl ic b3 three_phases_calls discovered_def
    by simp
qed

section \<open>The invocations of a whole run\<close>

lemma prepare_doc [simp]: "doc (prepare pf d0 cs) = prepared_doc pf d0"
  by (simp add: prepare_def prepared_doc_def Let_def split: prod.splits)

lemma prepare_calls [simp]: "calls (prepare pf d0 cs) = cs"
  by (simp add: prepare_def Let_def split: prod.splits)

lemma processSite_SomeD:
  assumes "processSite pf u = Some r"
  shows "text_at pf u \<noteq> []"
    and "r = package pf u (styles_of (parsed pf u)) (scripts_of pf (parsed pf u))
              (fetch_assets pf u (styles_of (parsed pf u)) (prepare pf (parsed pf u) [FetchText u]))"
proof -
  show t: "text_at pf u \<noteq> []" using assms processSite_None by fastforce
  from processSite_Some[OF t] assms
  show "r = package pf u (styles_of (parsed pf u)) (scripts_of pf (parsed pf u))
              (fetch_assets pf u (styles_of (parsed pf u)) (prepare pf (parsed pf u) [FetchText u]))"
    by (simp add: parsed_def)
qed

lemma run_invoked:
  assumes "processSite pf u = Some r"
  shows "invoked r
     = FetchText u # discovered pf u (prepared_doc pf (parsed pf u)) (styles_of (parsed pf u))"
  by (simp add: processSite_SomeD(2)[OF assms] package_fixed fetch_assets_calls)

lemma count_list_refs:
  "count_list (map (\<lambda>e. FetchBlob (f e)) xs) (FetchBlob a) = length (filter (\<lambda>e. f e = a) xs)"
  by (induction xs) simp_all

section \<open>An example site\<close>

lemmas enc_eval = encode_char_def percent_def hex_digit_def is_alpha_def is_digit_def Let_def

lemmas net_eval = text_at_def blob_at_def fetchText_def fetchBlob_def demo_pf_def browser_def
  serve_def found_def PROXY_def enc_eval

lemma demo_text:
  "text_at demo_pf ''https://x.com/'' = demo_html"
  "text_at demo_pf ''https://x.com/css/site.css'' = ''@font-face{src:url(font.woff2)}''"
  "text_at demo_pf ''https://x.com/missing.css'' = []"
  "text_at demo_pf ''https://x.com/css/inline-styles.css'' = []"
  "text_at demo_pf ''https://x.com/app.js'' = []"
  by (simp_all add: net_eval)

lemma demo_blob:
  "blob_at demo_pf ''https://x.com/css/font.woff2'' = Some ''F''"
  "blob_at demo_pf ''https://x.com/a.png'' = Some ''P''"
  "blob_at demo_pf ''https://x.com/gone.png'' = None"
  "blob_at demo_pf ''https://x.com/favicon.ico'' = None"
  "blob_at demo_pf ''https://x.com/f/a.woff2'' = Some ''G''"
  by (simp_all add: net_eval)

lemma demo_run: "processSite demo_pf demo_url = Some demo_run"
proof -
  have "text_at demo_pf demo_url \<noteq> []" by (simp add: demo_url_def demo_text demo_html_def)
  from processSite_Some[OF this] show ?thesis by (simp add: demo_run_def)
qed

lemma demo_parsed: "parsed demo_pf demo_url = demo_doc"
  by (simp add: parsed_def demo_pf_def browser_def)

lemma demo_newURL: "newURL demo_pf = std_URL"
  by (simp add: demo_pf_def browser_def)

lemma demo_resolve:
  "resolveUrl demo_pf ''https://x.com/'' ''css/site.css'' = ''https://x.com/css/site.css''"
  "resolveUrl demo_pf ''https://x.com/'' ''missing.css'' = ''https://x.com/missing.css''"
  "resolveUrl demo_pf ''https://x.com/'' ''css/inline-styles.css'' = ''https://x.com/css/inline-styles.css''"
  "resolveUrl demo_pf ''https://x.com/'' ''a.png'' = ''https://x.com/a.png''"
  "resolveUrl demo_pf ''https://x.com/'' ''gone.png'' = ''https://x.com/gone.png''"
  "resolveUrl demo_pf ''https://x.com/'' ''app.js'' = ''https://x.com/app.js''"
  "resolveUrl demo_pf ''https://x.com/'' ''/favicon.ico'' = ''https://x.com/favicon.ico''"
  "resolveUrl demo_pf ''https://x.com/'' ''bg.png'' = ''https://x.com/bg.png''"
  "resolveUrl demo_pf ''https://x.com/'' ''f/a.woff2'' = ''https://x.com/f/a.woff2''"
  "resolveUrl demo_pf ''https://x.com/css/site.css'' ''font.woff2'' = ''https://x.com/css/font.woff2''"
  by (simp_all add: resolveUrl_def demo_newURL url_eval)

lemmas dom_eval = el_def getAttribute_def reflected_def attr_or_prop_def or_default_def
  is_style_def is_inline_script_def sel_defs rel_of_def toLowerCase_def lower_char_def
  ascii_ws_def

lemma demo_styles:
  "styles_of demo_doc = ''a{background:url(bg.png)} @font-face{src:url(f/a.woff2)}'' @ [CHR 0x0A, CHR 0x0A]"
  by (simp add: styles_of_def demo_doc_def combined_def dom_eval)

lemma demo_scripts: "scripts_of demo_pf demo_doc = []"
  by (simp add: scripts_of_def demo_doc_def combined_def remove_els_def dom_eval resolveUrl_def
      demo_newURL url_eval)

lemma demo_prepared:
  "prepared_doc demo_pf demo_doc =
     \<lparr>els =
        [el ''link'' [(''rel'', ''stylesheet''), (''href'', ''css/site.css'')] [],
         el ''link'' [(''rel'', ''stylesheet''), (''href'', ''missing.css'')] [],
         inline_link,
         el ''img'' [(''src'', ''a.png'')] [],
         el ''img'' [(''src'', ''a.png'')] [],
         el ''img'' [(''src'', ''gone.png'')] [],
         el ''script'' [(''src'', ''app.js'')] []],
      head_n = 3, baseURI = ''https://app.example/''\<rparr>"
  unfolding prepared_doc_def prepare_def demo_styles demo_scripts
  by (simp add: demo_doc_def remove_els_def dom_eval resolveUrl_def demo_newURL url_eval
      trim_def is_space_def append_head_def)

lemmas css_eval = match_url_def starts_with_def skip_quote_def url_char_def quote_char_def

lemma demo_tokens:
  "extractUrlsFromCss ''@font-face{src:url(font.woff2)}'' = [''font.woff2'']"
  "extractUrlsFromCss (styles_of demo_doc) = [''bg.png'', ''f/a.woff2'']"
  unfolding demo_styles by (simp_all add: css_eval)

lemma demo_ext:
  "asset_ext ''https://x.com/css/font.woff2'' = ''woff2''"
  "asset_ext ''https://x.com/bg.png'' = ''png''"
  "asset_ext ''https://x.com/f/a.woff2'' = ''woff2''"
  by (simp_all add: asset_ext_def split_on_def toLowerCase_def lower_char_def)

lemma demo_discovered:
  "discovered demo_pf demo_url (prepared_doc demo_pf demo_doc) (styles_of demo_doc) =
     [FetchText ''https://x.com/css/site.css'', FetchBlob ''https://x.com/css/font.woff2'',
      FetchText ''https://x.com/missing.css'', FetchText ''https://x.com/css/inline-styles.css'',
      FetchText ''https://x.com/app.js'',
      FetchBlob ''https://x.com/a.png'', FetchBlob ''https://x.com/a.png'',
      FetchBlob ''https://x.com/gone.png'', FetchBlob ''https://x.com/favicon.ico'',
      FetchBlob ''https://x.com/f/a.woff2'']"
  unfolding demo_prepared
  by (simp add: discovered_def demo_url_def inline_link_def dom_eval sheet_calls_def
      sheet_assets_def ref_url_def icon_url_def inline_assets_def wanted_def demo_resolve
      demo_text demo_tokens demo_ext font_exts_def image_exts_def
      del: extractUrlsFromCss.simps(2))

lemma demo_invoked:
  "invoked demo_run =
     [FetchText ''https://x.com/'',
      FetchText ''https://x.com/css/site.css'', FetchBlob ''https://x.com/css/font.woff2'',
      FetchText ''https://x.com/missing.css'', FetchText ''https://x.com/css/inline-styles.css'',
      FetchText ''https://x.com/app.js'',
      FetchBlob ''https://x.com/a.png'', FetchBlob ''https://x.com/a.png'',
      FetchBlob ''https://x.com/gone.png'', FetchBlob ''https://x.com/favicon.ico'',
      FetchBlob ''https://x.com/f/a.woff2'']"
  using run_invoked[OF demo_run] by (simp add: demo_parsed demo_discovered) (simp add: demo_url_def)

lemma demo_failed:
  "fetch_failed demo_pf ''https://x.com/gone.png''"
  "fetch_failed demo_pf ''https://x.com/missing.css''"
  "\<not> fetch_failed demo_pf ''https://x.com/''"
  "\<not> fetch_empty demo_pf ''https://x.com/''"
  "fetch_empty demo_pf ''https://x.com/app.js''"
  by (simp_all add: fetch_failed_def fetch_empty_def demo_pf_def browser_def serve_def found_def
      PROXY_def enc_eval demo_html_def)

section \<open>Classifying a token by its extension\<close>



lemma save_font_eq:
  "save_font pf a st =
     (case blob_at pf a of
        Some b \<Rightarrow> st\<lparr>calls := calls st @ [FetchBlob a],
                     zip := (zip st)(fontsFolder @ fileNameFromUrl pf a \<mapsto> Blob b),
                     meta := add_font \<lparr>a_url = a, a_fname = Some (fileNameFromUrl pf a)\<rparr> (meta st)\<rparr>
      | None \<Rightarrow> st\<lparr>calls := calls st @ [FetchBlob a]\<rparr>)"
  by (simp add: save_font_def fetchBlob_eq Let_def split: option.splits)

lemma save_image_eq:
  "save_image pf a st =
     (case blob_at pf a of
        Some b \<Rightarrow> st\<lparr>calls := calls st @ [FetchBlob a],
                     zip := (zip st)(imgFolder @ fileNameFromUrl pf a \<mapsto> Blob b),
                     meta := add_image \<lparr>a_url = a, a_fname = Some (fileNameFromUrl pf a)\<rparr> (meta st)\<rparr>
      | None \<Rightarrow> st\<lparr>calls := calls st @ [FetchBlob a]\<rparr>)"
  by (simp add: save_image_def fetchBlob_eq Let_def split: option.splits)

lemma font_not_image: "x \<in> set font_exts \<Longrightarrow> x \<notin> set image_exts"
  by (auto simp: font_exts_def image_exts_def)

section \<open>The document after all the phases\<close>

lemma fetch_assets_doc:
  "doc (fetch_assets pf u css st)
     = doc (preload_phase pf u (icon_phase pf u (img_phase pf u (js_phase pf u (css_phase pf u st)))))"
  by (simp add: fetch_assets_def)

lemma three_phases_query:
  "query is_icon_link (doc (img_phase pf u (js_phase pf u (css_phase pf u st))))
     = query is_icon_link (doc st)"
  unfolding three_phases_doc by (rule query_stable[OF stable_rw3(1)])

lemma stableD: "stable P r \<Longrightarrow> P (r e) = P e" "stable P r \<Longrightarrow> P e \<Longrightarrow> r e = e"
  by (simp_all add: stable_def)

lemma rw3_cases:
  "is_stylesheet_link e \<Longrightarrow> rw3 pf u b e = css_rw pf u b e"
  "is_script_src e \<Longrightarrow> rw3 pf u b e = js_rw pf u b e"
  "is_img e \<Longrightarrow> rw3 pf u b e = blob_rw pf u ''src'' ''images/'' b e"
  "is_icon_link e \<Longrightarrow> rw3 pf u b e = e"
  "is_font_preload e \<Longrightarrow> rw3 pf u b e = e"
proof -
  show "is_stylesheet_link e \<Longrightarrow> rw3 pf u b e = css_rw pf u b e"
    by (simp add: rw3_def on_def css_rw_def sel_defs)
  show "is_script_src e \<Longrightarrow> rw3 pf u b e = js_rw pf u b e"
    by (simp add: rw3_def on_def js_rw_def sel_defs)
  show "is_img e \<Longrightarrow> rw3 pf u b e = blob_rw pf u ''src'' ''images/'' b e"
    by (simp add: rw3_def on_def sel_defs)
  show "is_icon_link e \<Longrightarrow> rw3 pf u b e = e"
    by (rule stableD(2)[OF stable_rw3(1)])
  show "is_font_preload e \<Longrightarrow> rw3 pf u b e = e"
    by (rule stableD(2)[OF stable_rw3(2)])
qed

text \<open>The element at position \<open>j\<close> after the icon phase.\<close>

lemma after_icon_nth:
  assumes "j < length (els (doc st))"
  shows "els (doc (icon_phase pf u (img_phase pf u (js_phase pf u (css_phase pf u st))))) ! j
     = (if query is_icon_link (doc st) \<noteq> [] \<and> j = hd (query is_icon_link (doc st))
        then icon_rw pf u (baseURI (doc st)) (els (doc st) ! j)
        else rw3 pf u (baseURI (doc st)) (els (doc st) ! j))"
proof (cases "query is_icon_link (doc st)")
  case Nil
  then show ?thesis using assms
    by (simp add: icon_phase_doc three_phases_query) (simp add: three_phases_doc)
next
  case (Cons i "is")
  then have i: "i < length (els (doc st))" "is_icon_link (els (doc st) ! i)"
    using query_nth[of i is_icon_link "doc st"] by simp_all
  have r: "rw3 pf u (baseURI (doc st)) (els (doc st) ! i) = els (doc st) ! i"
    using i(2) by (rule rw3_cases(4))
  show ?thesis
    using Cons assms i(1) r
    by (simp add: icon_phase_doc three_phases_query)
       (simp add: three_phases_doc rewrite_at_def nth_list_update)
qed

lemma after_icon_length:
  "length (els (doc (icon_phase pf u (img_phase pf u (js_phase pf u (css_phase pf u st))))))
     = length (els (doc st))"
  by (simp add: icon_phase_doc three_phases_query split: list.splits)
     (simp add: three_phases_doc rewrite_at_def)

lemma final_nth:
  assumes "j < length (els (doc st))"
  shows "els (doc (fetch_assets pf u css st)) ! j
     = on is_font_preload (blob_rw pf u ''href'' ''fonts/'' (baseURI (doc st)))
         (if query is_icon_link (doc st) \<noteq> [] \<and> j = hd (query is_icon_link (doc st))
          then icon_rw pf u (baseURI (doc st)) (els (doc st) ! j)
          else rw3 pf u (baseURI (doc st)) (els (doc st) ! j))"
proof -
  let ?st4 = "icon_phase pf u (img_phase pf u (js_phase pf u (css_phase pf u st)))"
  have b: "baseURI (doc (img_phase pf u (js_phase pf u (css_phase pf u st)))) = baseURI (doc st)"
    by (simp add: three_phases_doc)
  have l: "j < length (els (doc ?st4))" using assms by (simp add: after_icon_length)
  show ?thesis
    unfolding fetch_assets_doc preload_phase_doc
    using l by (simp add: b after_icon_nth[OF assms])
qed

lemma icon_first:
  assumes "query is_icon_link d \<noteq> []" "j = hd (query is_icon_link d)"
  shows "j < length (els d) \<and> is_icon_link (els d ! j)"
proof -
  from assms obtain "is" where "query is_icon_link d = j # is"
    by (cases "query is_icon_link d") auto
  then show ?thesis using query_nth[of j is_icon_link d] by simp
qed

lemma not_first_icon:
  assumes "\<not> is_icon_link (els d ! j)"
  shows "\<not> (query is_icon_link d \<noteq> [] \<and> j = hd (query is_icon_link d))"
  using assms icon_first by blast

lemma final_cases:
  assumes "j < length (els (doc st))"
  shows "is_stylesheet_link (els (doc st) ! j) \<Longrightarrow>
           els (doc (fetch_assets pf u css st)) ! j = css_rw pf u (baseURI (doc st)) (els (doc st) ! j)"
    and "is_script_src (els (doc st) ! j) \<Longrightarrow>
           els (doc (fetch_assets pf u css st)) ! j = js_rw pf u (baseURI (doc st)) (els (doc st) ! j)"
    and "is_img (els (doc st) ! j) \<Longrightarrow>
           els (doc (fetch_assets pf u css st)) ! j
             = blob_rw pf u ''src'' ''images/'' (baseURI (doc st)) (els (doc st) ! j)"
    and "is_font_preload (els (doc st) ! j) \<Longrightarrow>
           els (doc (fetch_assets pf u css st)) ! j
             = blob_rw pf u ''href'' ''fonts/'' (baseURI (doc st)) (els (doc st) ! j)"
    and "query is_icon_link (doc st) \<noteq> [] \<and> j = hd (query is_icon_link (doc st)) \<Longrightarrow>
           els (doc (fetch_assets pf u css st)) ! j = icon_rw pf u (baseURI (doc st)) (els (doc st) ! j)"
proof -
  let ?e = "els (doc st) ! j"
  let ?b = "baseURI (doc st)"
  note f = final_nth[OF assms, of pf u css]
  {
    assume s: "is_stylesheet_link ?e"
    then have n: "\<not> (query is_icon_link (doc st) \<noteq> [] \<and> j = hd (query is_icon_link (doc st)))"
      by (intro not_first_icon stylesheet_not_icon)
    have "\<not> is_font_preload (css_rw pf u ?b ?e)"
      using s by (simp add: css_rw_def sel_defs)
    then show "els (doc (fetch_assets pf u css st)) ! j = css_rw pf u ?b ?e"
      using f n s by (simp add: rw3_cases on_def)
  }
  {
    assume s: "is_script_src ?e"
    then have "\<not> is_icon_link ?e" by (simp add: sel_defs)
    then have n: "\<not> (query is_icon_link (doc st) \<noteq> [] \<and> j = hd (query is_icon_link (doc st)))"
      by (rule not_first_icon)
    have "\<not> is_font_preload (js_rw pf u ?b ?e)"
      using s by (simp add: js_rw_def sel_defs)
    then show "els (doc (fetch_assets pf u css st)) ! j = js_rw pf u ?b ?e"
      using f n s by (simp add: rw3_cases on_def)
  }
  {
    assume s: "is_img ?e"
    then have "\<not> is_icon_link ?e" by (simp add: sel_defs)
    then have n: "\<not> (query is_icon_link (doc st) \<noteq> [] \<and> j = hd (query is_icon_link (doc st)))"
      by (rule not_first_icon)
    have "\<not> is_font_preload (blob_rw pf u ''src'' ''images/'' ?b ?e)"
      using s by (simp add: blob_rw_def sel_defs split: option.splits)
    then show "els (doc (fetch_assets pf u css st)) ! j = blob_rw pf u ''src'' ''images/'' ?b ?e"
      using f n s by (simp add: rw3_cases on_def)
  }
  {
    assume s: "is_font_preload ?e"
    then have n: "\<not> (query is_icon_link (doc st) \<noteq> [] \<and> j = hd (query is_icon_link (doc st)))"
      by (intro not_first_icon preload_not_icon)
    show "els (doc (fetch_assets pf u css st)) ! j = blob_rw pf u ''href'' ''fonts/'' ?b ?e"
      using f n s by (simp add: rw3_cases on_def)
  }
  {
    assume s: "query is_icon_link (doc st) \<noteq> [] \<and> j = hd (query is_icon_link (doc st))"
    then have i: "is_icon_link ?e" using icon_first by blast
    have "is_font_preload (on is_icon_link (icon_rw pf u ?b) ?e) = is_font_preload ?e"
      by (rule stableD(1)[OF stable_icon])
    with i have "\<not> is_font_preload (icon_rw pf u ?b ?e)"
      using preload_not_icon by (auto simp: on_def)
    then show "els (doc (fetch_assets pf u css st)) ! j = icon_rw pf u ?b ?e"
      using f s by (simp add: on_def)
  }
qed

lemma fileNameFromUrl_nonempty [simp]: "or_default (fileNameFromUrl pf a) x = fileNameFromUrl pf a"
  by (simp add: fileNameFromUrl_def or_default_def Let_def split: option.splits)

lemma run_page:
  assumes "processSite pf u = Some r"
  shows "page r = doc (fetch_assets pf u (styles_of (parsed pf u)) (prepare pf (parsed pf u) [FetchText u]))"
  by (simp add: processSite_SomeD(2)[OF assms] package_fixed)

lemma run_page_cases:
  assumes "processSite pf u = Some r" "j < length (els (prepared_doc pf (parsed pf u)))"
  shows "is_stylesheet_link (els (prepared_doc pf (parsed pf u)) ! j) \<Longrightarrow>
           els (page r) ! j
             = css_rw pf u (baseURI (prepared_doc pf (parsed pf u))) (els (prepared_doc pf (parsed pf u)) ! j)"
    and "is_script_src (els (prepared_doc pf (parsed pf u)) ! j) \<Longrightarrow>
           els (page r) ! j
             = js_rw pf u (baseURI (prepared_doc pf (parsed pf u))) (els (prepared_doc pf (parsed pf u)) ! j)"
    and "is_img (els (prepared_doc pf (parsed pf u)) ! j) \<Longrightarrow>
           els (page r) ! j
             = blob_rw pf u ''src'' ''images/'' (baseURI (prepared_doc pf (parsed pf u)))
                 (els (prepared_doc pf (parsed pf u)) ! j)"
    and "is_font_preload (els (prepared_doc pf (parsed pf u)) ! j) \<Longrightarrow>
           els (page r) ! j
             = blob_rw pf u ''href'' ''fonts/'' (baseURI (prepared_doc pf (parsed pf u)))
                 (els (prepared_doc pf (parsed pf u)) ! j)"
    and "query is_icon_link (prepared_doc pf (parsed pf u)) \<noteq> []
           \<and> j = hd (query is_icon_link (prepared_doc pf (parsed pf u))) \<Longrightarrow>
           els (page r) ! j
             = icon_rw pf u (baseURI (prepared_doc pf (parsed pf u))) (els (prepared_doc pf (parsed pf u)) ! j)"
  using final_cases[of j "prepare pf (parsed pf u) [FetchText u]" pf u "styles_of (parsed pf u)"]
    assms(2)
  unfolding run_page[OF assms(1)] by simp_all

lemma demo_names:
  "fileNameFromUrl demo_pf ''https://x.com/missing.css'' = ''missing.css''"
  "fileNameFromUrl demo_pf ''https://x.com/a.png'' = ''a.png''"
  "fileNameFromUrl demo_pf ''https://x.com/css/inline-styles.css'' = ''inline-styles.css''"
  by (simp_all add: fileNameFromUrl_def demo_newURL url_eval)

lemma demo_els:
  "length (els (prepared_doc demo_pf demo_doc)) = 7"
  "els (prepared_doc demo_pf demo_doc) ! 1 = el ''link'' [(''rel'', ''stylesheet''), (''href'', ''missing.css'')] []"
  "els (prepared_doc demo_pf demo_doc) ! 2 = inline_link"
  "els (prepared_doc demo_pf demo_doc) ! 3 = el ''img'' [(''src'', ''a.png'')] []"
  "els (prepared_doc demo_pf demo_doc) ! 5 = el ''img'' [(''src'', ''gone.png'')] []"
  "baseURI (prepared_doc demo_pf demo_doc) = ''https://app.example/''"
  by (simp_all add: demo_prepared)

lemma demo_refs:
  "ref_url demo_pf demo_url b (el ''link'' [(''rel'', ''stylesheet''), (''href'', ''missing.css'')] []) ''href''
     = ''https://x.com/missing.css''"
  "ref_url demo_pf demo_url b (el ''img'' [(''src'', ''a.png'')] []) ''src'' = ''https://x.com/a.png''"
  "ref_url demo_pf demo_url b (el ''img'' [(''src'', ''gone.png'')] []) ''src'' = ''https://x.com/gone.png''"
  "ref_url demo_pf demo_url b inline_link ''href'' = ''https://x.com/css/inline-styles.css''"
  by (simp_all add: ref_url_def dom_eval inline_link_def demo_url_def demo_resolve)

lemma demo_kinds:
  "is_stylesheet_link (el ''link'' [(''rel'', ''stylesheet''), (''href'', ''missing.css'')] [])"
  "is_img (el ''img'' [(''src'', ''a.png'')] [])"
  "is_img (el ''img'' [(''src'', ''gone.png'')] [])"
  "is_stylesheet_link inline_link"
  by (simp_all add: dom_eval inline_link_def)

section \<open>The link that is made for the inline styles\<close>



lemma inline_link_sheet [simp]: "is_stylesheet_link inline_link"
  by (simp add: is_stylesheet_link_def inline_link_def rel_of_def getAttribute_def toLowerCase_def
      lower_char_def)

lemma inline_script_not_sheet [simp]: "\<not> is_stylesheet_link inline_script"
  by (simp add: is_stylesheet_link_def inline_script_def)


lemma inline_link_ref [simp]: "ref_url pf u b inline_link ''href'' = resolveUrl pf u ''css/inline-styles.css''"
  by (simp add: ref_url_def attr_or_prop_def getAttribute_def inline_link_def or_default_def)

subsection \<open>The list of style sheets in \<open>metaInfo\<close>\<close>

lemma js_iter_cssFiles [simp]: "cssFiles (meta (js_iter pf u i st)) = cssFiles (meta st)"
  by (simp add: js_iter_def Let_def fetchText_eq add_js_def)

lemma img_iter_cssFiles [simp]: "cssFiles (meta (img_iter pf u i st)) = cssFiles (meta st)"
  by (simp add: img_iter_def Let_def fetchBlob_eq add_image_def split: option.splits)

lemma preload_iter_cssFiles [simp]: "cssFiles (meta (preload_iter pf u i st)) = cssFiles (meta st)"
  by (simp add: preload_iter_def Let_def fetchBlob_eq add_font_def split: option.splits)

lemma icon_phase_cssFiles [simp]: "cssFiles (meta (icon_phase pf u st)) = cssFiles (meta st)"
  by (simp add: icon_phase_def Let_def fetchBlob_eq split: option.splits list.splits)

lemma inline_asset_cssFiles [simp]: "cssFiles (meta (inline_asset pf u t st)) = cssFiles (meta st)"
  by (simp add: inline_asset_def Let_def)


lemma prepare_cssFiles [simp]: "cssFiles (meta (prepare pf d0 cs)) = []"
  by (simp add: prepare_def Let_def split: prod.splits)



subsection \<open>The archive entry \<open>css/inline-styles.css\<close>\<close>

lemma css_asset_zip_css [simp]: "zip (css_asset pf s t st) (cssFolder @ x) = zip st (cssFolder @ x)"
  by (simp add: css_asset_def Let_def save_font_eq save_image_eq folder_defs split: option.splits)

lemma fold_css_asset_zip_css [simp]:
  "zip (fold (css_asset pf s) ts st) (cssFolder @ x) = zip st (cssFolder @ x)"
  by (induction ts arbitrary: st) simp_all




section \<open>The claims\<close>

text \<open>
  C1 (as amended): the fetcher is invoked once for every discovered reference, not once
  for every distinct URL: the invocations of a run are the root document followed by one
  invocation per reference, so a URL that \<open>n\<close> image elements refer to is fetched at least
  \<open>n\<close> times.
\<close>

theorem invoked_once_per_reference:
  "processSite pf u = Some r \<longrightarrow>
     count_list (invoked r) c
       = count_list (FetchText u
           # discovered pf u (prepared_doc pf (parsed pf u)) (styles_of (parsed pf u))) c
     \<and> length (filter (\<lambda>e. ref_url pf u (baseURI (prepared_doc pf (parsed pf u))) e ''src'' = a)
                 (filter is_img (els (prepared_doc pf (parsed pf u)))))
         \<le> count_list (invoked r) (FetchBlob a)"
proof
  assume r: "processSite pf u = Some r"
  let ?d = "prepared_doc pf (parsed pf u)"
  let ?imgs = "map (\<lambda>e. FetchBlob (ref_url pf u (baseURI ?d) e ''src'')) (filter is_img (els ?d))"
  have inv: "invoked r = FetchText u # discovered pf u ?d (styles_of (parsed pf u))"
    by (rule run_invoked[OF r])
  have a: "count_list ?imgs (FetchBlob a)
        = length (filter (\<lambda>e. ref_url pf u (baseURI ?d) e ''src'' = a) (filter is_img (els ?d)))"
    by (rule count_list_refs)
  have b: "count_list ?imgs (FetchBlob a) \<le> count_list (invoked r) (FetchBlob a)"
    unfolding inv discovered_def by simp
  show "count_list (invoked r) c
       = count_list (FetchText u # discovered pf u ?d (styles_of (parsed pf u))) c
     \<and> length (filter (\<lambda>e. ref_url pf u (baseURI ?d) e ''src'' = a) (filter is_img (els ?d)))
         \<le> count_list (invoked r) (FetchBlob a)"
    using inv a b by simp
qed

theorem invoked_once_per_reference_witness:
  "processSite demo_pf demo_url = Some demo_run
   \<and> count_list (invoked demo_run) (FetchBlob ''https://x.com/a.png'') = 2
   \<and> length (filter (\<lambda>e. ref_url demo_pf demo_url (baseURI (prepared_doc demo_pf demo_doc)) e ''src''
                        = ''https://x.com/a.png'')
               (filter is_img (els (prepared_doc demo_pf demo_doc)))) = 2"
  using invoked_once_per_reference
    [of demo_pf demo_url demo_run "FetchBlob ''https://x.com/a.png''" "''https://x.com/a.png''"]
    demo_run
  unfolding demo_parsed demo_discovered
  by (simp add: demo_prepared dom_eval ref_url_def demo_url_def demo_resolve inline_link_def)

theorem fetched_twice_counterexample:
  "processSite demo_pf demo_url = Some demo_run
   \<and> is_img (els (prepared_doc demo_pf demo_doc) ! 3)
   \<and> is_img (els (prepared_doc demo_pf demo_doc) ! 4)
   \<and> ref_url demo_pf demo_url (baseURI (prepared_doc demo_pf demo_doc))
         (els (prepared_doc demo_pf demo_doc) ! 3) ''src'' = ''https://x.com/a.png''
   \<and> ref_url demo_pf demo_url (baseURI (prepared_doc demo_pf demo_doc))
         (els (prepared_doc demo_pf demo_doc) ! 4) ''src'' = ''https://x.com/a.png''
   \<and> count_list (invoked demo_run) (FetchBlob ''https://x.com/a.png'') \<noteq> 1"
  using demo_run
  by (simp add: demo_invoked demo_prepared dom_eval ref_url_def demo_url_def demo_resolve)

text \<open>
  C2 (as amended): in the document that is serialised into \<open>index.html\<close>, the attribute of
  an image, a font preload link or the icon link equals \<open>images/\<close>, \<open>fonts/\<close> or nothing,
  followed by the local name, when its fetch succeeded, and is unchanged from the parsed
  document when its fetch failed. The attribute of a style sheet link or of a script is
  \<open>css/\<close> or \<open>js/\<close> followed by the local name whether its fetch succeeded or not.
\<close>

theorem attributes_after_rewriting:
  "processSite pf u = Some r \<and> j < length (els (prepared_doc pf (parsed pf u))) \<longrightarrow>
     (let d = prepared_doc pf (parsed pf u); b = baseURI d; e = els d ! j
      in (is_stylesheet_link e \<longrightarrow>
            getAttribute (els (page r) ! j) ''href''
              = Some (''css/'' @ fileNameFromUrl pf (ref_url pf u b e ''href'')))
       \<and> (is_script_src e \<longrightarrow>
            getAttribute (els (page r) ! j) ''src''
              = Some (''js/'' @ fileNameFromUrl pf (ref_url pf u b e ''src'')))
       \<and> (is_img e \<longrightarrow>
            getAttribute (els (page r) ! j) ''src''
              = (case blob_at pf (ref_url pf u b e ''src'') of
                   Some _ \<Rightarrow> Some (''images/'' @ fileNameFromUrl pf (ref_url pf u b e ''src''))
                 | None \<Rightarrow> getAttribute e ''src''))
       \<and> (is_font_preload e \<longrightarrow>
            getAttribute (els (page r) ! j) ''href''
              = (case blob_at pf (ref_url pf u b e ''href'') of
                   Some _ \<Rightarrow> Some (''fonts/'' @ fileNameFromUrl pf (ref_url pf u b e ''href''))
                 | None \<Rightarrow> getAttribute e ''href''))
       \<and> (query is_icon_link d \<noteq> [] \<and> j = hd (query is_icon_link d) \<longrightarrow>
            getAttribute (els (page r) ! j) ''href''
              = (case blob_at pf (ref_url pf u b e ''href'') of
                   Some _ \<Rightarrow> Some (fileNameFromUrl pf (ref_url pf u b e ''href''))
                 | None \<Rightarrow> getAttribute e ''href'')))"
proof
  assume a: "processSite pf u = Some r \<and> j < length (els (prepared_doc pf (parsed pf u)))"
  then have r: "processSite pf u = Some r" and j: "j < length (els (prepared_doc pf (parsed pf u)))"
    by simp_all
  note c = run_page_cases[OF r j]
  show "let d = prepared_doc pf (parsed pf u); b = baseURI d; e = els d ! j
      in (is_stylesheet_link e \<longrightarrow>
            getAttribute (els (page r) ! j) ''href''
              = Some (''css/'' @ fileNameFromUrl pf (ref_url pf u b e ''href'')))
       \<and> (is_script_src e \<longrightarrow>
            getAttribute (els (page r) ! j) ''src''
              = Some (''js/'' @ fileNameFromUrl pf (ref_url pf u b e ''src'')))
       \<and> (is_img e \<longrightarrow>
            getAttribute (els (page r) ! j) ''src''
              = (case blob_at pf (ref_url pf u b e ''src'') of
                   Some _ \<Rightarrow> Some (''images/'' @ fileNameFromUrl pf (ref_url pf u b e ''src''))
                 | None \<Rightarrow> getAttribute e ''src''))
       \<and> (is_font_preload e \<longrightarrow>
            getAttribute (els (page r) ! j) ''href''
              = (case blob_at pf (ref_url pf u b e ''href'') of
                   Some _ \<Rightarrow> Some (''fonts/'' @ fileNameFromUrl pf (ref_url pf u b e ''href''))
                 | None \<Rightarrow> getAttribute e ''href''))
       \<and> (query is_icon_link d \<noteq> [] \<and> j = hd (query is_icon_link d) \<longrightarrow>
            getAttribute (els (page r) ! j) ''href''
              = (case blob_at pf (ref_url pf u b e ''href'') of
                   Some _ \<Rightarrow> Some (fileNameFromUrl pf (ref_url pf u b e ''href''))
                 | None \<Rightarrow> getAttribute e ''href''))"
    unfolding Let_def
  proof (intro conjI impI)
    assume "is_stylesheet_link (els (prepared_doc pf (parsed pf u)) ! j)"
    from c(1)[OF this]
    show "getAttribute (els (page r) ! j) ''href''
        = Some (''css/'' @ fileNameFromUrl pf (ref_url pf u (baseURI (prepared_doc pf (parsed pf u)))
                  (els (prepared_doc pf (parsed pf u)) ! j) ''href''))"
      by (simp add: css_rw_def css_name_def)
  next
    assume "is_script_src (els (prepared_doc pf (parsed pf u)) ! j)"
    from c(2)[OF this]
    show "getAttribute (els (page r) ! j) ''src''
        = Some (''js/'' @ fileNameFromUrl pf (ref_url pf u (baseURI (prepared_doc pf (parsed pf u)))
                  (els (prepared_doc pf (parsed pf u)) ! j) ''src''))"
      by (simp add: js_rw_def js_name_def)
  next
    assume "is_img (els (prepared_doc pf (parsed pf u)) ! j)"
    from c(3)[OF this]
    show "getAttribute (els (page r) ! j) ''src''
        = (case blob_at pf (ref_url pf u (baseURI (prepared_doc pf (parsed pf u)))
                  (els (prepared_doc pf (parsed pf u)) ! j) ''src'') of
             Some _ \<Rightarrow> Some (''images/'' @ fileNameFromUrl pf (ref_url pf u (baseURI (prepared_doc pf (parsed pf u)))
                  (els (prepared_doc pf (parsed pf u)) ! j) ''src''))
           | None \<Rightarrow> getAttribute (els (prepared_doc pf (parsed pf u)) ! j) ''src'')"
      by (simp add: blob_rw_def split: option.splits)
  next
    assume "is_font_preload (els (prepared_doc pf (parsed pf u)) ! j)"
    from c(4)[OF this]
    show "getAttribute (els (page r) ! j) ''href''
        = (case blob_at pf (ref_url pf u (baseURI (prepared_doc pf (parsed pf u)))
                  (els (prepared_doc pf (parsed pf u)) ! j) ''href'') of
             Some _ \<Rightarrow> Some (''fonts/'' @ fileNameFromUrl pf (ref_url pf u (baseURI (prepared_doc pf (parsed pf u)))
                  (els (prepared_doc pf (parsed pf u)) ! j) ''href''))
           | None \<Rightarrow> getAttribute (els (prepared_doc pf (parsed pf u)) ! j) ''href'')"
      by (simp add: blob_rw_def split: option.splits)
  next
    assume "query is_icon_link (prepared_doc pf (parsed pf u)) \<noteq> []
        \<and> j = hd (query is_icon_link (prepared_doc pf (parsed pf u)))"
    from c(5)[OF this]
    show "getAttribute (els (page r) ! j) ''href''
        = (case blob_at pf (ref_url pf u (baseURI (prepared_doc pf (parsed pf u)))
                  (els (prepared_doc pf (parsed pf u)) ! j) ''href'') of
             Some _ \<Rightarrow> Some (fileNameFromUrl pf (ref_url pf u (baseURI (prepared_doc pf (parsed pf u)))
                  (els (prepared_doc pf (parsed pf u)) ! j) ''href''))
           | None \<Rightarrow> getAttribute (els (prepared_doc pf (parsed pf u)) ! j) ''href'')"
      by (simp add: icon_rw_def split: option.splits)
  qed
qed

theorem attributes_after_rewriting_witness:
  "processSite demo_pf demo_url = Some demo_run
   \<and> 3 < length (els (prepared_doc demo_pf (parsed demo_pf demo_url)))
   \<and> is_img (els (prepared_doc demo_pf (parsed demo_pf demo_url)) ! 3)
   \<and> blob_at demo_pf ''https://x.com/a.png'' = Some ''P''
   \<and> getAttribute (els (page demo_run) ! 3) ''src'' = Some ''images/a.png''
   \<and> is_img (els (prepared_doc demo_pf (parsed demo_pf demo_url)) ! 5)
   \<and> blob_at demo_pf ''https://x.com/gone.png'' = None
   \<and> getAttribute (els (page demo_run) ! 5) ''src'' = Some ''gone.png''
   \<and> is_stylesheet_link (els (prepared_doc demo_pf (parsed demo_pf demo_url)) ! 1)
   \<and> getAttribute (els (page demo_run) ! 1) ''href'' = Some ''css/missing.css''"
  using attributes_after_rewriting[of demo_pf demo_url demo_run 3] attributes_after_rewriting[of demo_pf demo_url demo_run 5]
    attributes_after_rewriting[of demo_pf demo_url demo_run 1] demo_run
  unfolding demo_parsed Let_def demo_els demo_refs
  by (simp add: demo_kinds demo_blob demo_names) (simp add: dom_eval)

theorem failed_stylesheet_rewritten_counterexample:
  "processSite demo_pf demo_url = Some demo_run
   \<and> is_stylesheet_link (els (prepared_doc demo_pf (parsed demo_pf demo_url)) ! 1)
   \<and> getAttribute (els (prepared_doc demo_pf (parsed demo_pf demo_url)) ! 1) ''href'' = Some ''missing.css''
   \<and> ref_url demo_pf demo_url (baseURI (prepared_doc demo_pf (parsed demo_pf demo_url)))
        (els (prepared_doc demo_pf (parsed demo_pf demo_url)) ! 1) ''href'' = ''https://x.com/missing.css''
   \<and> fetch_failed demo_pf ''https://x.com/missing.css''
   \<and> getAttribute (els (page demo_run) ! 1) ''href'' = Some ''css/missing.css''"
proof -
  have j: "1 < length (els (prepared_doc demo_pf (parsed demo_pf demo_url)))"
    unfolding demo_parsed demo_els by simp
  have s: "is_stylesheet_link (els (prepared_doc demo_pf (parsed demo_pf demo_url)) ! 1)"
    unfolding demo_parsed demo_els by (rule demo_kinds)
  have "els (page demo_run) ! 1
      = css_rw demo_pf demo_url ''https://app.example/''
          (el ''link'' [(''rel'', ''stylesheet''), (''href'', ''missing.css'')] [])"
    using run_page_cases(1)[OF demo_run j s] unfolding demo_parsed demo_els .
  then have p: "getAttribute (els (page demo_run) ! 1) ''href'' = Some ''css/missing.css''"
    by (simp add: css_rw_def css_name_def demo_refs demo_names or_default_def)
  show ?thesis
    using demo_run s p unfolding demo_parsed demo_els demo_refs
    by (simp add: demo_failed) (simp add: dom_eval)
qed




text \<open>
  C4 (as amended): domainFromUrl returns the hostname of the parsed URL, which for
  \<open>https://Example.com:8080/x\<close> is \<open>example.com\<close>, in lower case and without the port; the
  container name is the domain with every run of characters of the set replaced by one
  hyphen, followed by \<open>.zip\<close>, so this input yields \<open>example.com.zip\<close>. The text
  \<open>Example.com:8080\<close> itself is sanitised to \<open>Example.com-8080\<close>.
\<close>

theorem domainFromUrl_hostname:
  "(newURL pf u None = Some p \<longrightarrow> domainFromUrl pf u = hostname p)
   \<and> domainFromUrl (browser [] blank) ''https://Example.com:8080/x'' = ''example.com''
   \<and> zipNameOf (browser [] blank) ''https://Example.com:8080/x'' = ''example.com.zip''
   \<and> zipNameOf pf u = safeName (or_default (domainFromUrl pf u) ''site'') @ ''.zip''
   \<and> (list_all (\<lambda>c. \<not> unsafe_char c) pre \<and> run \<noteq> [] \<and> list_all unsafe_char run
        \<and> (post = [] \<or> \<not> unsafe_char (hd post)) \<longrightarrow>
      safeName (pre @ run @ post) = pre @ CHR ''-'' # safeName post)
   \<and> list_all (\<lambda>c. \<not> unsafe_char c) (safeName s)
   \<and> safeName ''Example.com:8080'' = ''Example.com-8080''"
proof (intro conjI impI)
  assume "newURL pf u None = Some p"
  then show "domainFromUrl pf u = hostname p" by (simp add: domainFromUrl_def)
next
  show d: "domainFromUrl (browser [] blank) ''https://Example.com:8080/x'' = ''example.com''"
    by (simp add: domainFromUrl_def browser_def parse_example_port)
  show "zipNameOf (browser [] blank) ''https://Example.com:8080/x'' = ''example.com.zip''"
    unfolding zipNameOf_def d by (simp add: or_default_def unsafe_char_def)
next
  show "zipNameOf pf u = safeName (or_default (domainFromUrl pf u) ''site'') @ ''.zip''"
    by (simp add: zipNameOf_def)
next
  assume "list_all (\<lambda>c. \<not> unsafe_char c) pre \<and> run \<noteq> [] \<and> list_all unsafe_char run
        \<and> (post = [] \<or> \<not> unsafe_char (hd post))"
  then show "safeName (pre @ run @ post) = pre @ CHR ''-'' # safeName post"
    by (intro safeName_run) simp_all
next
  show "list_all (\<lambda>c. \<not> unsafe_char c) (safeName s)" by (rule safeName_clean)
next
  show "safeName ''Example.com:8080'' = ''Example.com-8080''"
    by (simp add: unsafe_char_def)
qed

theorem domainFromUrl_hostname_witness:
  "newURL (browser [] blank) ''https://Example.com:8080/x'' None
     = Some \<lparr>href = ''https://example.com:8080/x'', hostname = ''example.com'', pathname = ''/x''\<rparr>
   \<and> domainFromUrl (browser [] blank) ''https://Example.com:8080/x'' = ''example.com''
   \<and> list_all (\<lambda>c. \<not> unsafe_char c) ''a.b'' \<and> list_all unsafe_char '': /''
   \<and> \<not> unsafe_char (hd ''c d'')
   \<and> safeName (''a.b'' @ '': /'' @ ''c d'') = ''a.b-c-d''"
  using domainFromUrl_hostname
    [of "browser [] blank" "''https://Example.com:8080/x''"
        "\<lparr>href = ''https://example.com:8080/x'', hostname = ''example.com'', pathname = ''/x''\<rparr>"
        "''a.b''" "'': /''" "''c d''" "[]"]
  by (simp add: browser_def parse_example_port unsafe_char_def)

theorem domainFromUrl_port_counterexample:
  "domainFromUrl (browser [] blank) ''https://Example.com:8080/x'' \<noteq> ''Example.com:8080''
   \<and> zipNameOf (browser [] blank) ''https://Example.com:8080/x'' \<noteq> ''Example.com-8080.zip''"
  by (simp add: zipNameOf_def domainFromUrl_def browser_def parse_example_port or_default_def
      unsafe_char_def)





text \<open>
  C7: the invocations of a run, in order. Every reference taken from the document (style
  sheet, script, image, icon, preload) is fetched from its attribute resolved against the
  page URL \<open>u\<close>; every \<open>url(...)\<close> token of a fetched style sheet is resolved against the
  URL \<open>s\<close> of that style sheet.
\<close>

theorem references_resolved:
  "processSite pf u = Some r \<longrightarrow>
     (let d = prepared_doc pf (parsed pf u); b = baseURI d
      in invoked r =
           FetchText u
           # concat (map (\<lambda>e. let s = resolveUrl pf u (attr_or_prop pf b e ''href'')
                               in FetchText s
                                  # map FetchBlob
                                      (filter wanted
                                         (map (resolveUrl pf s) (extractUrlsFromCss (text_at pf s)))))
                       (filter is_stylesheet_link (els d)))
           @ map (\<lambda>e. FetchText (resolveUrl pf u (attr_or_prop pf b e ''src'')))
               (filter is_script_src (els d))
           @ map (\<lambda>e. FetchBlob (resolveUrl pf u (attr_or_prop pf b e ''src'')))
               (filter is_img (els d))
           @ [FetchBlob (case filter is_icon_link (els d) of
                           e # _ \<Rightarrow> resolveUrl pf u (attr_or_prop pf b e ''href'')
                         | [] \<Rightarrow> resolveUrl pf u ''/favicon.ico'')]
           @ map (\<lambda>e. FetchBlob (resolveUrl pf u (attr_or_prop pf b e ''href'')))
               (filter is_font_preload (els d))
           @ map FetchBlob (inline_assets pf u (styles_of (parsed pf u))))"
proof
  assume r: "processSite pf u = Some r"
  show "let d = prepared_doc pf (parsed pf u); b = baseURI d
      in invoked r =
           FetchText u
           # concat (map (\<lambda>e. let s = resolveUrl pf u (attr_or_prop pf b e ''href'')
                               in FetchText s
                                  # map FetchBlob
                                      (filter wanted
                                         (map (resolveUrl pf s) (extractUrlsFromCss (text_at pf s)))))
                       (filter is_stylesheet_link (els d)))
           @ map (\<lambda>e. FetchText (resolveUrl pf u (attr_or_prop pf b e ''src'')))
               (filter is_script_src (els d))
           @ map (\<lambda>e. FetchBlob (resolveUrl pf u (attr_or_prop pf b e ''src'')))
               (filter is_img (els d))
           @ [FetchBlob (case filter is_icon_link (els d) of
                           e # _ \<Rightarrow> resolveUrl pf u (attr_or_prop pf b e ''href'')
                         | [] \<Rightarrow> resolveUrl pf u ''/favicon.ico'')]
           @ map (\<lambda>e. FetchBlob (resolveUrl pf u (attr_or_prop pf b e ''href'')))
               (filter is_font_preload (els d))
           @ map FetchBlob (inline_assets pf u (styles_of (parsed pf u)))"
    unfolding run_invoked[OF r] discovered_def sheet_calls_def sheet_assets_def ref_url_def
      icon_url_def Let_def
    by simp
qed

theorem references_resolved_witness:
  "processSite demo_pf demo_url = Some demo_run
   \<and> resolveUrl demo_pf demo_url ''css/site.css'' = ''https://x.com/css/site.css''
   \<and> extractUrlsFromCss (text_at demo_pf ''https://x.com/css/site.css'') = [''font.woff2'']
   \<and> resolveUrl demo_pf ''https://x.com/css/site.css'' ''font.woff2'' = ''https://x.com/css/font.woff2''
   \<and> resolveUrl demo_pf demo_url ''font.woff2'' = ''https://x.com/font.woff2''
   \<and> invoked demo_run =
     [FetchText ''https://x.com/'',
      FetchText ''https://x.com/css/site.css'', FetchBlob ''https://x.com/css/font.woff2'',
      FetchText ''https://x.com/missing.css'', FetchText ''https://x.com/css/inline-styles.css'',
      FetchText ''https://x.com/app.js'',
      FetchBlob ''https://x.com/a.png'', FetchBlob ''https://x.com/a.png'',
      FetchBlob ''https://x.com/gone.png'', FetchBlob ''https://x.com/favicon.ico'',
      FetchBlob ''https://x.com/f/a.woff2'']"
proof -
  have p: "resolveUrl demo_pf demo_url ''font.woff2'' = ''https://x.com/font.woff2''"
    by (simp add: resolveUrl_def demo_newURL demo_url_def url_eval)
  show ?thesis
    using references_resolved[of demo_pf demo_url demo_run] demo_run p
    by (simp add: demo_invoked demo_url_def demo_resolve demo_text demo_tokens
        del: extractUrlsFromCss.simps(2))
qed






text \<open>
  C10: fetchText returns the empty string for every failure. A root document that is
  fetched with an empty body makes the run return the failure exactly as a failed fetch
  does, and a style sheet or a script whose content is empty leaves the same state as one
  whose fetch failed: an empty file in the archive, the entry in \<open>metaInfo\<close> and the
  rewritten attribute.
\<close>

theorem empty_text_is_failure:
  "(fetch_failed pf a \<longrightarrow> fst (fetchText pf a cs) = [])
   \<and> (fetch_failed pf u \<or> fetch_empty pf u \<longrightarrow> processSite pf u = None)
   \<and> (fetch_failed pf (resolveUrl pf u (attr_or_prop pf (baseURI (doc st)) (els (doc st) ! i) ''href''))
        \<or> fetch_empty pf (resolveUrl pf u (attr_or_prop pf (baseURI (doc st)) (els (doc st) ! i) ''href''))
      \<longrightarrow>
      css_iter pf u i st =
        (let s = resolveUrl pf u (attr_or_prop pf (baseURI (doc st)) (els (doc st) ! i) ''href'');
             fname = or_default (fileNameFromUrl pf s) ''style.css''
         in st\<lparr>calls := calls st @ [FetchText s], zip := (zip st)(cssFolder @ fname \<mapsto> Text []),
               meta := add_css \<lparr>a_url = s, a_fname = Some fname\<rparr> (meta st),
               doc := set_attr i ''href'' (''css/'' @ fname) (doc st)\<rparr>))
   \<and> (fetch_failed pf (resolveUrl pf u (attr_or_prop pf (baseURI (doc st)) (els (doc st) ! i) ''src''))
        \<or> fetch_empty pf (resolveUrl pf u (attr_or_prop pf (baseURI (doc st)) (els (doc st) ! i) ''src''))
      \<longrightarrow>
      js_iter pf u i st =
        (let s = resolveUrl pf u (attr_or_prop pf (baseURI (doc st)) (els (doc st) ! i) ''src'');
             fname = or_default (fileNameFromUrl pf s) ''script.js''
         in st\<lparr>calls := calls st @ [FetchText s], zip := (zip st)(jsFolder @ fname \<mapsto> Text []),
               meta := add_js \<lparr>a_url = s, a_fname = Some fname\<rparr> (meta st),
               doc := set_attr i ''src'' (''js/'' @ fname) (doc st)\<rparr>))"
proof (intro conjI impI)
  assume "fetch_failed pf a"
  then show "fst (fetchText pf a cs) = []"
    by (simp add: fetchText_eq fetch_failed_text)
next
  assume "fetch_failed pf u \<or> fetch_empty pf u"
  then show "processSite pf u = None"
    by (simp add: processSite_None text_at_empty_iff)
next
  assume "fetch_failed pf (resolveUrl pf u (attr_or_prop pf (baseURI (doc st)) (els (doc st) ! i) ''href''))
        \<or> fetch_empty pf (resolveUrl pf u (attr_or_prop pf (baseURI (doc st)) (els (doc st) ! i) ''href''))"
  then have "text_at pf (resolveUrl pf u (attr_or_prop pf (baseURI (doc st)) (els (doc st) ! i) ''href'')) = []"
    by (simp add: text_at_empty_iff)
  then show "css_iter pf u i st =
        (let s = resolveUrl pf u (attr_or_prop pf (baseURI (doc st)) (els (doc st) ! i) ''href'');
             fname = or_default (fileNameFromUrl pf s) ''style.css''
         in st\<lparr>calls := calls st @ [FetchText s], zip := (zip st)(cssFolder @ fname \<mapsto> Text []),
               meta := add_css \<lparr>a_url = s, a_fname = Some fname\<rparr> (meta st),
               doc := set_attr i ''href'' (''css/'' @ fname) (doc st)\<rparr>)"
    by (rule css_iter_empty)
next
  assume "fetch_failed pf (resolveUrl pf u (attr_or_prop pf (baseURI (doc st)) (els (doc st) ! i) ''src''))
        \<or> fetch_empty pf (resolveUrl pf u (attr_or_prop pf (baseURI (doc st)) (els (doc st) ! i) ''src''))"
  then have "text_at pf (resolveUrl pf u (attr_or_prop pf (baseURI (doc st)) (els (doc st) ! i) ''src'')) = []"
    by (simp add: text_at_empty_iff)
  then show "js_iter pf u i st =
        (let s = resolveUrl pf u (attr_or_prop pf (baseURI (doc st)) (els (doc st) ! i) ''src'');
             fname = or_default (fileNameFromUrl pf s) ''script.js''
         in st\<lparr>calls := calls st @ [FetchText s], zip := (zip st)(jsFolder @ fname \<mapsto> Text []),
               meta := add_js \<lparr>a_url = s, a_fname = Some fname\<rparr> (meta st),
               doc := set_attr i ''src'' (''js/'' @ fname) (doc st)\<rparr>)"
    by (rule js_iter_empty)
qed

theorem empty_text_is_failure_witness:
  "fetch_failed demo_pf ''https://x.com/missing.css''
   \<and> fst (fetchText demo_pf ''https://x.com/missing.css'' []) = []
   \<and> fetch_empty empty_pf demo_url \<and> processSite empty_pf demo_url = None
   \<and> resolveUrl demo_pf demo_url
        (attr_or_prop demo_pf (baseURI (doc page_state)) (els (doc page_state) ! 1) ''href'')
       = ''https://x.com/missing.css''
   \<and> zip (css_iter demo_pf demo_url 1 page_state) (cssFolder @ ''missing.css'') = Some (Text [])
   \<and> resolveUrl demo_pf demo_url
        (attr_or_prop demo_pf (baseURI (doc page_state)) (els (doc page_state) ! 6) ''src'')
       = ''https://x.com/app.js''
   \<and> fetch_empty demo_pf ''https://x.com/app.js''
   \<and> zip (js_iter demo_pf demo_url 6 page_state) (jsFolder @ ''app.js'') = Some (Text [])"
proof -
  have e: "fetch_empty empty_pf demo_url"
    by (simp add: fetch_empty_def empty_pf_def demo_url_def browser_def serve_def found_def
        PROXY_def enc_eval)
  have h: "resolveUrl demo_pf demo_url
        (attr_or_prop demo_pf (baseURI (doc page_state)) (els (doc page_state) ! 1) ''href'')
       = ''https://x.com/missing.css''"
    by (simp add: page_state_def demo_prepared dom_eval demo_url_def demo_resolve)
  have s: "resolveUrl demo_pf demo_url
        (attr_or_prop demo_pf (baseURI (doc page_state)) (els (doc page_state) ! 6) ''src'')
       = ''https://x.com/app.js''"
    by (simp add: page_state_def demo_prepared dom_eval demo_url_def demo_resolve)
  have f1: "fileNameFromUrl demo_pf ''https://x.com/missing.css'' = ''missing.css''"
    by (simp add: fileNameFromUrl_def demo_newURL url_eval)
  have f2: "fileNameFromUrl demo_pf ''https://x.com/app.js'' = ''app.js''"
    by (simp add: fileNameFromUrl_def demo_newURL url_eval)
  show ?thesis
    using empty_text_is_failure[of demo_pf "''https://x.com/missing.css''" "[]" demo_url page_state 1]
      empty_text_is_failure[of empty_pf "''https://x.com/missing.css''" "[]" demo_url page_state 1]
      empty_text_is_failure[of demo_pf "''https://x.com/missing.css''" "[]" demo_url page_state 6]
      e
    unfolding h s
    by (simp add: demo_failed f1 f2 or_default_def Let_def)
qed

end
